theory Spec2Isabelle
  imports Complex_Main
begin

section \<open>Host-language primitives\<close>

text \<open>
  The program is TypeScript; its \<open>number\<close> values are binary64. A \<^typ>\<open>real\<close> that stands
  for a number of the program is meant to be a binary64 value. Two computations are
  modelled in binary64, rounded to nearest with ties to even: the additions and
  subtractions that place the fallback seed set, and the division \<open>distance / 1000\<close>
  of the distance label. The haversine formula of \<open>calculateDistance\<close> is modelled in
  exact real arithmetic: \<open>Math.sin\<close>, \<open>Math.cos\<close> and \<open>Math.atan2\<close> are approximations that
  the host chooses, and neither their rounding nor NaN is represented. There the model
  departs from the program: for pairs of points that are antipodal or nearly so, the
  haversine term of the program can round to a value above 1, \<open>Math.sqrt\<close> of the
  negative difference is NaN, and the program returns NaN where the model returns a
  number. Overflow and subnormal numbers are not represented. The rounded distance in
  metres is an \<^typ>\<open>int\<close>. A number literal that the program only stores, such as a
  rating, is written as its decimal.
  Strings are \<^typ>\<open>string\<close>; a character is a byte, so a non-ASCII character is the
  sequence of its UTF-8 bytes, and case folding and white space are those of ASCII.
\<close>

subsection \<open>Strings\<close>

definition toLowerCase :: "string \<Rightarrow> string" where
  \<comment> \<open>\<open>String.prototype.toLowerCase\<close>, on the ASCII letters\<close>
  "toLowerCase s =
     map (\<lambda>c. case map_of (zip ''ABCDEFGHIJKLMNOPQRSTUVWXYZ'' ''abcdefghijklmnopqrstuvwxyz'') c of
                 Some l \<Rightarrow> l | None \<Rightarrow> c) s"

fun startsWith :: "string \<Rightarrow> string \<Rightarrow> bool" where
  "startsWith s [] = True"
| "startsWith [] (k # ks) = False"
| "startsWith (c # cs) (k # ks) = (c = k \<and> startsWith cs ks)"

fun stringIncludes :: "string \<Rightarrow> string \<Rightarrow> bool" where
  \<comment> \<open>\<open>String.prototype.includes\<close>: the second string occurs in the first\<close>
  "stringIncludes [] k = (k = [])"
| "stringIncludes (c # cs) k = (startsWith (c # cs) k \<or> stringIncludes cs k)"

fun split :: "char \<Rightarrow> string \<Rightarrow> string list" where
  \<comment> \<open>\<open>String.prototype.split\<close> with a one-character separator\<close>
  "split sep [] = [[]]"
| "split sep (c # cs) =
     (if c = sep then [] # split sep cs
      else (case split sep cs of
              part # parts \<Rightarrow> (c # part) # parts
            | [] \<Rightarrow> [[c]]))"

definition isWhiteSpace :: "char \<Rightarrow> bool" where
  "isWhiteSpace c = (c \<in> set [CHR '' '', CHR 0x09, CHR 0x0A, CHR 0x0B, CHR 0x0C, CHR 0x0D])"

definition trim :: "string \<Rightarrow> string" where
  "trim s = rev (dropWhile isWhiteSpace (rev (dropWhile isWhiteSpace s)))"

definition arrayIncludes :: "'a list \<Rightarrow> 'a \<Rightarrow> bool" where
  \<comment> \<open>\<open>Array.prototype.includes\<close>\<close>
  "arrayIncludes xs x = (x \<in> set xs)"

subsection \<open>Numbers to strings\<close>

definition digitChar :: "nat \<Rightarrow> char" where
  "digitChar n = ''0123456789'' ! (n mod 10)"

function natToString :: "nat \<Rightarrow> string" where
  "natToString n =
     (if n < 10 then [digitChar n] else natToString (n div 10) @ [digitChar (n mod 10)])"
  by pat_completeness auto
termination
  by (relation "measure (\<lambda>n. n)") auto

declare natToString.simps [simp del]

definition intToString :: "int \<Rightarrow> string" where
  \<comment> \<open>the template literal \<open>`${distance}`\<close> of an integer-valued number\<close>
  "intToString d = (if d < 0 then ''-'' @ natToString (nat (- d)) else natToString (nat d))"

subsection \<open>Binary64 division and \<open>toFixed(1)\<close>\<close>

text \<open>
  \<open>distance / 1000\<close> is a binary64 division of two integers that binary64 holds
  exactly; its result is the exact quotient rounded to 53 significant bits, ties to
  even. \<open>fdiv p q\<close> is that rounded quotient, a dyadic rational, for \<open>p, q > 0\<close>
  in the normal range. \<open>toFixed1 x\<close> is \<open>x.toFixed(1)\<close> for \<open>\<bar>x\<bar> < 10\<^sup>2\<^sup>1\<close>: the
  integer \<open>n\<close> nearest to \<open>10 * x\<close> (the larger one at a tie), printed with its last
  digit behind the point. The whole numbers that reach the label are great-circle
  distances in metres on a sphere of radius 6371 km, far inside both ranges.
\<close>

function bitLength :: "nat \<Rightarrow> nat" where
  "bitLength n = (if n = 0 then 0 else Suc (bitLength (n div 2)))"
  by pat_completeness auto
termination
  by (relation "measure (\<lambda>n. n)") auto

declare bitLength.simps [simp del]

definition roundHalfEven :: "nat \<Rightarrow> nat \<Rightarrow> nat" where
  \<comment> \<open>the integer nearest to \<open>p / q\<close>, the even one at a tie\<close>
  "roundHalfEven p q =
     (let k = p div q; r = p mod q
      in if 2 * r < q then k else if q < 2 * r then k + 1
         else if even k then k else k + 1)"

definition fdiv :: "nat \<Rightarrow> nat \<Rightarrow> real" where
  "fdiv p q =
     (let s0 = 52 + int (bitLength q) - int (bitLength p);
          scaled = (\<lambda>s. if 0 \<le> s then (p * 2 ^ nat s, q) else (p, q * 2 ^ nat (- s)));
          s = (if fst (scaled s0) < 2 ^ 52 * snd (scaled s0) then s0 + 1 else s0);
          m = roundHalfEven (fst (scaled s)) (snd (scaled s))
      in if 0 \<le> s then of_nat m / 2 ^ nat s else of_nat m * 2 ^ nat (- s))"

definition toFixed1 :: "real \<Rightarrow> string" where
  "toFixed1 x =
     (let n = nat \<lfloor>10 * \<bar>x\<bar> + 1 / 2\<rfloor>
      in (if x < 0 then ''-'' else '''')
         @ natToString (n div 10) @ ''.'' @ natToString (n mod 10))"

subsection \<open>Binary64 rounding, addition and subtraction\<close>

text \<open>
  A number literal \<open>0.01\<close> of the program is the binary64 value \<open>binary64 0.01\<close>, and
  the sum of two numbers is their exact sum rounded to binary64. The unit in the last
  place of \<open>x\<close> is \<open>2\<close> to the power \<open>\<lfloor>log\<^sub>2 \<bar>x\<bar>\<rfloor> - 52\<close>.
\<close>

definition roundTiesToEven :: "real \<Rightarrow> int" where
  \<comment> \<open>the integer nearest to \<open>x\<close>, the even one at a tie\<close>
  "roundTiesToEven x =
     (let k = \<lfloor>x\<rfloor>; r = x - of_int k
      in if r < 1 / 2 then k else if 1 / 2 < r then k + 1
         else if even k then k else k + 1)"

definition binary64 :: "real \<Rightarrow> real" where
  \<comment> \<open>the binary64 value nearest to \<open>x\<close>, the one with an even significand at a tie\<close>
  "binary64 x =
     (if x = 0 then 0
      else (let ulp = 2 powr (of_int \<lfloor>log 2 \<bar>x\<bar>\<rfloor> - 52)
            in sgn x * of_int (roundTiesToEven (\<bar>x\<bar> / ulp)) * ulp))"

definition fadd :: "real \<Rightarrow> real \<Rightarrow> real" where
  \<comment> \<open>\<open>x + y\<close> of two numbers\<close>
  "fadd x y = binary64 (x + y)"

definition fsub :: "real \<Rightarrow> real \<Rightarrow> real" where
  \<comment> \<open>\<open>x - y\<close> of two numbers\<close>
  "fsub x y = binary64 (x - y)"

section \<open>Great-circle distance and its label\<close>

definition Math_atan2 :: "real \<Rightarrow> real \<Rightarrow> real" where
  \<comment> \<open>\<open>Math.atan2(y, x)\<close>\<close>
  "Math_atan2 y x =
     (if 0 < x then arctan (y / x)
      else if x < 0 \<and> 0 \<le> y then arctan (y / x) + pi
      else if x < 0 then arctan (y / x) - pi
      else if 0 < y then pi / 2
      else if y < 0 then - (pi / 2)
      else 0)"

definition calculateDistance :: "real \<Rightarrow> real \<Rightarrow> real \<Rightarrow> real \<Rightarrow> int" where
  "calculateDistance lat1 lon1 lat2 lon2 =
     (let R = 6371;
          dLat = (lat2 - lat1) * pi / 180;
          dLon = (lon2 - lon1) * pi / 180;
          a = sin (dLat / 2) * sin (dLat / 2) +
              cos (lat1 * pi / 180) * cos (lat2 * pi / 180) *
              sin (dLon / 2) * sin (dLon / 2);
          c = 2 * Math_atan2 (sqrt a) (sqrt (1 - a));
          distance = R * c * 1000
      in round distance)"

definition formatDistance :: "int \<Rightarrow> string" where
  \<comment> \<open>the \<open>distance\<close> field of \<open>convertGooglePlaceToLocation\<close>\<close>
  "formatDistance distance =
     (if distance > 1000 then toFixed1 (fdiv (nat distance) 1000) @ ''km''
      else intToString distance @ ''m'')"

section \<open>Data model\<close>

record Photo =
  height :: real
  width :: real
  photo_reference :: string

record OpeningHours =
  open_now :: bool

record LatLng =
  lat :: real
  lng :: real

record Geometry =
  location :: LatLng

record GooglePlaceResponse =
  place_id :: string
  name :: string
  types :: "string list"
  business_status :: "string option"
  formatted_address :: "string option"
  geometry :: Geometry
  rating :: "real option"
  user_ratings_total :: "real option"
  vicinity :: "string option"
  photos :: "Photo list option"
  opening_hours :: "OpeningHours option"

record GooglePlacesApiResponse =
  results :: "GooglePlaceResponse list"
  status :: string
  error_message :: "string option"
  next_page_token :: "string option"

text \<open>
  \<open>Location\<close> is imported by the service from the application's type module; its
  fields are those of the object literals the service builds. The field \<open>id\<close> is
  written \<open>id'\<close>, and the parameters \<open>latitude\<close> and \<open>longitude\<close> of the functions
  below are written \<open>latitude'\<close> and \<open>longitude'\<close>, apart from the fields of these
  names. An optional field is an \<open>option\<close>, \<open>None\<close> for \<open>undefined\<close>.
\<close>

record GooglePlacesData =
  rating :: "real option"
  userRatingsTotal :: "real option"
  businessStatus :: "string option"
  openNow :: "bool option"
  types :: "string list"
  formattedAddress :: "string option"
  vicinity :: "string option"

record Location =
  id' :: string
  name :: string
  description :: string
  latitude :: real
  longitude :: real
  imageUrl :: string
  audioUrl :: "string option"
  audioTitle :: "string option"
  audioDuration :: "string option"
  category :: string
  distance :: string
  googlePlacesData :: GooglePlacesData

section \<open>The host environment\<close>

text \<open>
  What the service reads from outside itself: the access key of the build
  environment, the network behind \<open>fetch\<close>, and how JavaScript prints a number.
  A response body is what \<open>response.json()\<close> makes of it: \<open>None\<close> when the text is
  not JSON (the call rejects with a SyntaxError), otherwise a JSON value. The JSON
  values are told apart by what the service reads from them: a payload of the places
  provider, the wrapper object of the \<open>allorigins\<close> proxy (its \<open>status.http_code\<close>,
  \<open>None\<close> when absent or not a number, and what \<open>JSON.parse\<close> makes of its
  \<open>contents\<close>), and \<open>OtherJson\<close>, any other value on which a property read or a
  method call of the service throws a TypeError, such as \<open>null\<close> or a payload whose
  \<open>results\<close> are not an array of the declared records. A payload is a value of its
  declared type: JSON that passes for one without having its fields is not
  represented.
\<close>

datatype exception = FetchError | SyntaxError | TypeError

datatype json =
    OtherJson
  | PlacesApiJson GooglePlacesApiResponse
  | AllOriginsJson "int option" "json option"

record Response =
  status :: nat
  body :: "json option"

definition ok :: "Response \<Rightarrow> bool" where
  \<comment> \<open>\<open>response.ok\<close>: the status is in the range 200 to 299\<close>
  "ok response = (200 \<le> Response.status response \<and> Response.status response \<le> 299)"

record Request =
  url :: string
  headers :: "(string \<times> string) list"

record Environment =
  REACT_APP_GOOGLE_PLACES_API_KEY :: "string option"
  fetch :: "Request \<Rightarrow> exception + Response"
  numberToString :: "real \<Rightarrow> string"

definition truthy :: "string option \<Rightarrow> bool" where
  \<comment> \<open>an optional string in a condition: neither \<open>undefined\<close> nor empty\<close>
  "truthy s = (case s of None \<Rightarrow> False | Some v \<Rightarrow> v \<noteq> [])"

subsection \<open>URL encoding\<close>

definition hexDigit :: "nat \<Rightarrow> char" where
  "hexDigit n = ''0123456789ABCDEF'' ! (n mod 16)"

definition percentEncode :: "char \<Rightarrow> string" where
  "percentEncode c = [CHR ''%'', hexDigit ((of_char c :: nat) div 16), hexDigit (of_char c)]"

definition alphanumerics :: string where
  "alphanumerics =
     ''ABCDEFGHIJKLMNOPQRSTUVWXYZ'' @ ''abcdefghijklmnopqrstuvwxyz'' @ ''0123456789''"

definition encodeURIComponent :: "string \<Rightarrow> string" where
  "encodeURIComponent s =
     concat (map (\<lambda>c. if c \<in> set (alphanumerics @ ''-_.!~*()'' @ [CHR 0x27]) then [c]
                       else percentEncode c) s)"

definition formUrlEncode :: "string \<Rightarrow> string" where
  \<comment> \<open>the \<open>application/x-www-form-urlencoded\<close> serializer of \<open>URLSearchParams\<close>\<close>
  "formUrlEncode s =
     concat (map (\<lambda>c. if c = CHR '' '' then ''+''
                       else if c \<in> set (alphanumerics @ ''*-._'') then [c]
                       else percentEncode c) s)"

fun searchParamsToString :: "(string \<times> string) list \<Rightarrow> string" where
  "searchParamsToString [] = []"
| "searchParamsToString [(k, v)] = formUrlEncode k @ ''='' @ formUrlEncode v"
| "searchParamsToString ((k, v) # kvs) =
     formUrlEncode k @ ''='' @ formUrlEncode v @ ''&'' @ searchParamsToString kvs"

section \<open>Normalising a candidate\<close>

definition buildPlaceDescription :: "GooglePlaceResponse \<Rightarrow> string" where
  "buildPlaceDescription place =
     (let placeTypes = GooglePlaceResponse.types place;
          description =
            (if arrayIncludes placeTypes ''tourist_attraction'' \<or> arrayIncludes placeTypes ''museum''
             then GooglePlaceResponse.name place @ '' is a renowned heritage site and tourist destination. ''
             else if arrayIncludes placeTypes ''place_of_worship'' \<or> arrayIncludes placeTypes ''hindu_temple''
             then GooglePlaceResponse.name place @ '' is a sacred place of worship with rich cultural and spiritual significance. ''
             else if arrayIncludes placeTypes ''historical_landmark''
             then GooglePlaceResponse.name place @ '' is a historical landmark that showcases the architectural heritage and cultural legacy of the region. ''
             else GooglePlaceResponse.name place @ '' is a significant heritage site that represents the cultural and historical importance of this area. '');
          description =
            (if truthy (GooglePlaceResponse.vicinity place)
             then description @ ''Located in '' @ the (GooglePlaceResponse.vicinity place) @ '', ''
             else if truthy (formatted_address place)
             then (let addressParts = split CHR '','' (the (formatted_address place))
                   in if length addressParts > 1
                      then description @ ''Located in '' @ trim (addressParts ! (length addressParts - 2)) @ '', ''
                      else description)
             else description)
      in description @ ''this site offers visitors a glimpse into the rich history and cultural traditions that have shaped this region over centuries.'')"

definition fallbackImageUrl :: "GooglePlaceResponse \<Rightarrow> string" where
  \<comment> \<open>the second half of \<open>getImageUrl\<close>, reached when no photo URL was returned\<close>
  "fallbackImageUrl place =
     (let placeTypes = GooglePlaceResponse.types place
      in if arrayIncludes placeTypes ''museum''
         then ''https://images.unsplash.com/photo-1578495555443-d134c52754e7?w=400&h=300&fit=crop''
         else if arrayIncludes placeTypes ''place_of_worship'' \<or> arrayIncludes placeTypes ''hindu_temple''
         then ''https://images.unsplash.com/photo-1583224964938-0c17db9e623a?w=400&h=300&fit=crop''
         else if arrayIncludes placeTypes ''historical_landmark'' \<or>
                 stringIncludes (toLowerCase (GooglePlaceResponse.name place)) ''fort''
         then ''https://images.unsplash.com/photo-1566127952889-bf906f4e4c5d?w=400&h=300&fit=crop''
         else if stringIncludes (toLowerCase (GooglePlaceResponse.name place)) ''palace''
         then ''https://images.unsplash.com/photo-1545042746-d0a8b69e5e22?w=400&h=300&fit=crop''
         else if stringIncludes (toLowerCase (GooglePlaceResponse.name place)) ''charminar''
         then ''https://images.unsplash.com/photo-1564507592333-c60657eea523?w=400&h=300&fit=crop''
         else ''https://images.unsplash.com/photo-1578662996442-48f60103fc96?w=400&h=300&fit=crop'')"

definition getImageUrl :: "Environment \<Rightarrow> GooglePlaceResponse \<Rightarrow> string" where
  "getImageUrl env place =
     (case photos place of
        Some (photo # morePhotos) \<Rightarrow>
          (let apiKey = REACT_APP_GOOGLE_PLACES_API_KEY env
           in if truthy apiKey
              then (let photoUrl = ''https://maps.googleapis.com/maps/api/place/photo?maxwidth=400&photoreference='' @ photo_reference photo @ ''&key='' @ the apiKey
                    in ''https://cors-anywhere.herokuapp.com/'' @ photoUrl)
              else fallbackImageUrl place)
      | _ \<Rightarrow> fallbackImageUrl place)"

definition convertGooglePlaceToLocation ::
  "Environment \<Rightarrow> GooglePlaceResponse \<Rightarrow> real \<Rightarrow> real \<Rightarrow> Location" where
  "convertGooglePlaceToLocation env place userLat userLng =
     (let distance = calculateDistance userLat userLng
                       (lat (location (geometry place))) (lng (location (geometry place)))
      in \<lparr> id' = place_id place,
           Location.name = GooglePlaceResponse.name place,
           description = buildPlaceDescription place,
           latitude = lat (location (geometry place)),
           longitude = lng (location (geometry place)),
           imageUrl = getImageUrl env place,
           audioUrl = None,
           audioTitle = None,
           audioDuration = None,
           category = ''heritage'',
           distance = formatDistance distance,
           googlePlacesData =
             \<lparr> GooglePlacesData.rating = GooglePlaceResponse.rating place,
               userRatingsTotal = user_ratings_total place,
               businessStatus = business_status place,
               openNow = map_option open_now (opening_hours place),
               GooglePlacesData.types = GooglePlaceResponse.types place,
               formattedAddress = formatted_address place,
               GooglePlacesData.vicinity = GooglePlaceResponse.vicinity place \<rparr> \<rparr>)"

section \<open>The relevance filter\<close>

definition historicTypes :: "string list" where
  "historicTypes =
     [''tourist_attraction'', ''museum'', ''place_of_worship'', ''establishment'',
      ''point_of_interest'']"

definition historicKeywords :: "string list" where
  "historicKeywords =
     [''temple'', ''fort'', ''palace'', ''monument'', ''heritage'', ''historic'',
      ''archaeological'', ''ancient'', ''cultural'', ''tomb'', ''mosque'', ''church'',
      ''castle'', ''cathedral'', ''shrine'', ''memorial'']"

definition isHistoricPlace :: "GooglePlaceResponse \<Rightarrow> bool" where
  \<comment> \<open>the predicate that \<open>filterHistoricPlaces\<close> passes to \<open>filter\<close>\<close>
  "isHistoricPlace place =
     (let hasHistoricType =
            list_ex (\<lambda>type. arrayIncludes historicTypes type) (GooglePlaceResponse.types place);
          hasHistoricKeyword =
            list_ex (\<lambda>keyword.
                stringIncludes (toLowerCase (GooglePlaceResponse.name place)) keyword \<or>
                (truthy (GooglePlaceResponse.vicinity place) \<and>
                 stringIncludes (toLowerCase (the (GooglePlaceResponse.vicinity place))) keyword))
              historicKeywords
      in hasHistoricType \<or> hasHistoricKeyword)"

definition filterHistoricPlaces :: "GooglePlaceResponse list \<Rightarrow> GooglePlaceResponse list" where
  "filterHistoricPlaces places = filter isHistoricPlace places"

section \<open>The fallback seed set\<close>

definition getFallbackHistoricPlaces :: "real \<Rightarrow> real \<Rightarrow> Location list" where
  "getFallbackHistoricPlaces latitude' longitude' =
     [
      \<lparr> id' = ''fallback-historic-1'',
        Location.name = ''Charminar Heritage Monument'',
        description = ''Charminar is a magnificent monument and mosque built in 1591. This iconic structure stands as a symbol of Hyderabad with its four grand arches and minarets. The monument showcases Indo-Islamic architecture and offers visitors a glimpse into the rich history of the Qutb Shahi dynasty.'',
        latitude = fadd latitude' (binary64 0.01),
        longitude = fadd longitude' (binary64 0.01),
        imageUrl = ''https://images.unsplash.com/photo-1564507592333-c60657eea523?w=400&h=300&fit=crop'',
        audioUrl = None, audioTitle = None, audioDuration = None,
        category = ''heritage'',
        distance = ''1.2km'',
        googlePlacesData =
          \<lparr> GooglePlacesData.rating = Some 4.5,
            userRatingsTotal = Some 8234,
            businessStatus = Some ''OPERATIONAL'',
            openNow = Some True,
            GooglePlacesData.types = [''tourist_attraction'', ''historical_landmark'', ''monument''],
            formattedAddress = Some ''Charminar Rd, Char Kaman, Ghansi Bazaar, Hyderabad, Telangana 500002, India'',
            GooglePlacesData.vicinity = Some ''Charminar'' \<rparr> \<rparr>,
      \<lparr> id' = ''fallback-heritage-2'',
        Location.name = ''State Archaeological Museum'',
        description = ''The State Archaeological Museum houses an extensive collection of artifacts, sculptures, and relics that chronicle the rich cultural heritage of the region. Established to preserve and showcase archaeological treasures, the museum offers visitors an educational journey through centuries of art, culture, and history.'',
        latitude = fsub latitude' (binary64 0.01),
        longitude = fadd longitude' (binary64 0.01),
        imageUrl = ''https://images.unsplash.com/photo-1578495555443-d134c52754e7?w=400&h=300&fit=crop'',
        audioUrl = None, audioTitle = None, audioDuration = None,
        category = ''heritage'',
        distance = ''2.1km'',
        googlePlacesData =
          \<lparr> GooglePlacesData.rating = Some 4.2,
            userRatingsTotal = Some 1456,
            businessStatus = Some ''OPERATIONAL'',
            openNow = Some True,
            GooglePlacesData.types = [''museum'', ''tourist_attraction'', ''cultural_center''],
            formattedAddress = Some ''Public Gardens, Nampally, Hyderabad, Telangana 500001, India'',
            GooglePlacesData.vicinity = Some ''Nampally'' \<rparr> \<rparr>,
      \<lparr> id' = ''fallback-temple-3'',
        Location.name = ''Birla Mandir Temple'',
        description = ''Birla Mandir is a stunning Hindu temple constructed entirely of white marble and dedicated to Lord Venkateswara. Perched atop a hill, this temple combines traditional and modern architectural elements, offering devotees and visitors a serene spiritual experience along with panoramic views of the city.'',
        latitude = fadd latitude' (binary64 0.005),
        longitude = fsub longitude' (binary64 0.005),
        imageUrl = ''https://images.unsplash.com/photo-1583224964938-0c17db9e623a?w=400&h=300&fit=crop'',
        audioUrl = None, audioTitle = None, audioDuration = None,
        category = ''heritage'',
        distance = ''800m'',
        googlePlacesData =
          \<lparr> GooglePlacesData.rating = Some 4.7,
            userRatingsTotal = Some 12089,
            businessStatus = Some ''OPERATIONAL'',
            openNow = Some True,
            GooglePlacesData.types = [''hindu_temple'', ''place_of_worship'', ''tourist_attraction''],
            formattedAddress = Some ''Hill Fort Rd, Ambedkar Colony, Mehdipatnam, Hyderabad, Telangana 500028, India'',
            GooglePlacesData.vicinity = Some ''Mehdipatnam'' \<rparr> \<rparr>,
      \<lparr> id' = ''fallback-fort-4'',
        Location.name = ''Golconda Fort'',
        description = ''Golconda Fort is a medieval fortress built by the Kakatiya dynasty and later expanded by the Qutb Shahi rulers. This imposing citadel features ingenious architecture, intricate acoustic systems, and defensive mechanisms. The fort complex offers visitors a fascinating journey through military architecture and royal history.'',
        latitude = fsub latitude' (binary64 0.005),
        longitude = fsub longitude' (binary64 0.01),
        imageUrl = ''https://images.unsplash.com/photo-1566127952889-bf906f4e4c5d?w=400&h=300&fit=crop'',
        audioUrl = None, audioTitle = None, audioDuration = None,
        category = ''heritage'',
        distance = ''1.8km'',
        googlePlacesData =
          \<lparr> GooglePlacesData.rating = Some 4.3,
            userRatingsTotal = Some 15678,
            businessStatus = Some ''OPERATIONAL'',
            openNow = Some False,
            GooglePlacesData.types = [''historical_landmark'', ''fort'', ''tourist_attraction''],
            formattedAddress = Some ''Khair Complex, Ibrahim Bagh, Hyderabad, Telangana 500008, India'',
            GooglePlacesData.vicinity = Some ''Ibrahim Bagh'' \<rparr> \<rparr>,
      \<lparr> id' = ''fallback-palace-5'',
        Location.name = ''Chowmahalla Palace'',
        description = ''Chowmahalla Palace served as the official residence of the Nizams of Hyderabad and is renowned for its exquisite architecture and royal grandeur. The palace complex showcases a blend of Persian, Turkish, and European architectural styles, featuring ornate halls, beautiful courtyards, and a remarkable collection of vintage cars and artifacts.'',
        latitude = fadd latitude' (binary64 0.008),
        longitude = fsub longitude' (binary64 0.008),
        imageUrl = ''https://images.unsplash.com/photo-1545042746-d0a8b69e5e22?w=400&h=300&fit=crop'',
        audioUrl = None, audioTitle = None, audioDuration = None,
        category = ''heritage'',
        distance = ''2.5km'',
        googlePlacesData =
          \<lparr> GooglePlacesData.rating = Some 4.4,
            userRatingsTotal = Some 3567,
            businessStatus = Some ''CLOSED_TEMPORARILY'',
            openNow = Some False,
            GooglePlacesData.types = [''palace'', ''historical_landmark'', ''museum''],
            formattedAddress = Some ''20-4-236, Motigalli, Khilwat, Hyderabad, Telangana 500002, India'',
            GooglePlacesData.vicinity = Some ''Khilwat'' \<rparr> \<rparr>
     ]"

section \<open>Discovery through the proxy chain\<close>

text \<open>
  The service is an \<open>async\<close> function. Its model returns the requests it made, in the
  order it made them, and how its promise settles: \<open>Inl\<close> an exception for a
  rejection, \<open>Inr\<close> the list for a resolution. Every \<open>throw\<close> and every rejected
  \<open>await\<close> inside a \<open>try\<close> block is an \<open>Inl\<close> of the block's model, and the \<open>catch\<close>
  clause is the case distinction on it. Console output is not modelled.
\<close>

datatype step = Continue | Return "Location list"

definition corsProxies :: "string list" where
  "corsProxies =
     [''https://api.allorigins.win/get?url='',
      ''https://corsproxy.io/?'',
      ''https://thingproxy.freeboard.io/fetch/'',
      ''https://cors-anywhere.herokuapp.com/'']"

definition buildRequest :: "string \<Rightarrow> string \<Rightarrow> Request" where
  \<comment> \<open>\<open>fullUrl\<close> and \<open>fetchOptions\<close> of one pass of the loop\<close>
  "buildRequest corsProxy targetUrl =
     (if stringIncludes corsProxy ''allorigins.win''
      then \<lparr> url = corsProxy @ encodeURIComponent targetUrl, headers = [] \<rparr>
      else \<lparr> url = corsProxy @ targetUrl,
             headers = [(''X-Requested-With'', ''XMLHttpRequest'')] \<rparr>)"

definition readData :: "string \<Rightarrow> Response \<Rightarrow> exception + json option" where
  \<comment> \<open>the assignment of \<open>data\<close>; \<open>Inr None\<close> is the \<open>continue\<close> of the allorigins branch\<close>
  "readData corsProxy response =
     (if stringIncludes corsProxy ''allorigins.win''
      then (case body response of
              None \<Rightarrow> Inl SyntaxError
            | Some OtherJson \<Rightarrow> Inl TypeError
            | Some (PlacesApiJson payload) \<Rightarrow> Inr None
            | Some (AllOriginsJson http_code contents) \<Rightarrow>
                if http_code = Some 200
                then (case contents of None \<Rightarrow> Inl SyntaxError | Some parsed \<Rightarrow> Inr (Some parsed))
                else Inr None)
      else (case body response of
              None \<Rightarrow> Inl SyntaxError
            | Some parsed \<Rightarrow> Inr (Some parsed)))"

definition useData :: "Environment \<Rightarrow> real \<Rightarrow> real \<Rightarrow> json \<Rightarrow> exception + step" where
  \<comment> \<open>the rest of the \<open>try\<close> block, from the test of \<open>data.status\<close>\<close>
  "useData env latitude' longitude' data =
     (case data of
        OtherJson \<Rightarrow> Inl TypeError
      | AllOriginsJson http_code contents \<Rightarrow> Inr Continue
      | PlacesApiJson payload \<Rightarrow>
          if GooglePlacesApiResponse.status payload \<noteq> ''OK'' then Inr Continue
          else (let historicPlaces = filterHistoricPlaces (results payload);
                    locations = map (\<lambda>place. convertGooglePlaceToLocation env place latitude' longitude')
                                  historicPlaces
                in Inr (Return locations)))"

definition tryProxy ::
  "Environment \<Rightarrow> string \<Rightarrow> real \<Rightarrow> real \<Rightarrow> string \<Rightarrow> Request list \<times> (exception + step)" where
  \<comment> \<open>the \<open>try\<close> block of one pass of the loop\<close>
  "tryProxy env targetUrl latitude' longitude' corsProxy =
     (let request = buildRequest corsProxy targetUrl
      in ([request],
          case fetch env request of
            Inl rejection \<Rightarrow> Inl rejection
          | Inr response \<Rightarrow>
              if \<not> ok response then Inr Continue
              else (case readData corsProxy response of
                      Inl thrown \<Rightarrow> Inl thrown
                    | Inr None \<Rightarrow> Inr Continue
                    | Inr (Some data) \<Rightarrow> useData env latitude' longitude' data)))"

fun tryProxies ::
  "Environment \<Rightarrow> string \<Rightarrow> real \<Rightarrow> real \<Rightarrow> string list \<Rightarrow> Request list \<times> Location list option" where
  \<comment> \<open>the \<open>for\<close> loop over the proxies still to try; \<open>None\<close> when it runs to its end\<close>
  "tryProxies env targetUrl latitude' longitude' [] = ([], None)"
| "tryProxies env targetUrl latitude' longitude' (corsProxy # rest) =
     (let (requests, outcome) = tryProxy env targetUrl latitude' longitude' corsProxy;
          step = (case outcome of Inl proxyError \<Rightarrow> Continue | Inr s \<Rightarrow> s)
      in case step of
           Return locations \<Rightarrow> (requests, Some locations)
         | Continue \<Rightarrow>
             (let (later, result) = tryProxies env targetUrl latitude' longitude' rest
              in (requests @ later, result)))"

definition buildTargetUrl :: "Environment \<Rightarrow> string \<Rightarrow> real \<Rightarrow> real \<Rightarrow> string" where
  "buildTargetUrl env apiKey latitude' longitude' =
     (let baseUrl = ''https://maps.googleapis.com/maps/api/place/nearbysearch/json'';
          params =
            [(''location'', numberToString env latitude' @ '','' @ numberToString env longitude'),
             (''radius'', ''50000''),
             (''type'', ''tourist_attraction''),
             (''keyword'', ''historic heritage monument museum archaeological temple fort palace''),
             (''key'', apiKey)]
      in baseUrl @ ''?'' @ searchParamsToString params)"

definition fetchBody ::
  "Environment \<Rightarrow> real \<Rightarrow> real \<Rightarrow> Request list \<times> (exception + Location list)" where
  \<comment> \<open>the outer \<open>try\<close> block\<close>
  "fetchBody env latitude' longitude' =
     (let apiKey = REACT_APP_GOOGLE_PLACES_API_KEY env
      in if \<not> truthy apiKey
         then ([], Inr (getFallbackHistoricPlaces latitude' longitude'))
         else (let targetUrl = buildTargetUrl env (the apiKey) latitude' longitude';
                   (requests, result) = tryProxies env targetUrl latitude' longitude' corsProxies
               in case result of
                    Some locations \<Rightarrow> (requests, Inr locations)
                  | None \<Rightarrow> (requests, Inr (getFallbackHistoricPlaces latitude' longitude'))))"

definition fetchHistoricPlacesWithCORS ::
  "Environment \<Rightarrow> real \<Rightarrow> real \<Rightarrow> Request list \<times> (exception + Location list)" where
  "fetchHistoricPlacesWithCORS env latitude' longitude' =
     (let (requests, outcome) = fetchBody env latitude' longitude'
      in case outcome of
           Inl error \<Rightarrow> (requests, Inr (getFallbackHistoricPlaces latitude' longitude'))
         | Inr locations \<Rightarrow> (requests, Inr locations))"

section \<open>Notions of the specification\<close>

text \<open>
  The definitions of this section do not translate code. They state, in the words of
  the specification, what the theorems below compare the code with.
\<close>

definition delivered ::
  "Environment \<Rightarrow> string \<Rightarrow> string \<Rightarrow> GooglePlacesApiResponse option" where
  \<comment> \<open>A path succeeds: the transport succeeds, the HTTP status is a success, the
      envelope of the path is in order (for the wrapping proxy a wrapper with
      \<open>status.http_code\<close> 200 whose \<open>contents\<close> parse, for the others the payload
      itself), and the provider reports the status \<open>OK\<close>. The result is the payload.\<close>
  "delivered env targetUrl corsProxy =
     (case fetch env (buildRequest corsProxy targetUrl) of
        Inl rejection \<Rightarrow> None
      | Inr response \<Rightarrow>
          if \<not> ok response then None
          else (case body response of
                  Some (PlacesApiJson payload) \<Rightarrow>
                    if \<not> stringIncludes corsProxy ''allorigins.win'' \<and>
                       GooglePlacesApiResponse.status payload = ''OK''
                    then Some payload else None
                | Some (AllOriginsJson (Some http_code) (Some (PlacesApiJson payload))) \<Rightarrow>
                    if stringIncludes corsProxy ''allorigins.win'' \<and> http_code = 200 \<and>
                       GooglePlacesApiResponse.status payload = ''OK''
                    then Some payload else None
                | _ \<Rightarrow> None))"

definition targetUrlOf :: "Environment \<Rightarrow> real \<Rightarrow> real \<Rightarrow> string" where
  \<comment> \<open>the target URL of a call whose environment has an access key\<close>
  "targetUrlOf env latitude' longitude' =
     buildTargetUrl env (the (REACT_APP_GOOGLE_PLACES_API_KEY env)) latitude' longitude'"

definition normalised ::
  "Environment \<Rightarrow> real \<Rightarrow> real \<Rightarrow> GooglePlaceResponse list \<Rightarrow> Location list" where
  \<comment> \<open>the relevance filter, then the normaliser on each surviving candidate\<close>
  "normalised env latitude' longitude' candidates =
     map (\<lambda>place. convertGooglePlaceToLocation env place latitude' longitude')
       (filterHistoricPlaces candidates)"

definition isDigits :: "string \<Rightarrow> bool" where
  "isDigits s = (s \<noteq> [] \<and> list_all (\<lambda>c. c \<in> set ''0123456789'') s)"

definition isMetreLabel :: "string \<Rightarrow> bool" where
  \<comment> \<open>whole metres and the suffix \<open>m\<close>\<close>
  "isMetreLabel s = (s \<noteq> [] \<and> last s = CHR ''m'' \<and> isDigits (butlast s))"

definition isKilometreLabel :: "string \<Rightarrow> bool" where
  \<comment> \<open>digits, a point, one digit and the suffix \<open>km\<close>\<close>
  "isKilometreLabel s =
     (let n = length s
      in 5 \<le> n \<and> drop (n - 2) s = ''km'' \<and> isDigits [s ! (n - 3)] \<and>
         s ! (n - 4) = CHR ''.'' \<and> isDigits (take (n - 4) s))"

definition decimalValue :: "string \<Rightarrow> nat" where
  \<comment> \<open>the number that a string of decimal digits denotes\<close>
  "decimalValue s = foldl (\<lambda>a c. 10 * a + (of_char c - 48)) 0 s"

definition hasPhoto :: "GooglePlaceResponse \<Rightarrow> bool" where
  \<comment> \<open>the candidate carries a photo reference\<close>
  "hasPhoto place = (case photos place of Some (photo # morePhotos) \<Rightarrow> True | _ \<Rightarrow> False)"

section \<open>Example environments\<close>

text \<open>
  Concrete candidates and environments, on which the theorems below are instantiated.
\<close>

definition okPayload :: "GooglePlaceResponse list \<Rightarrow> GooglePlacesApiResponse" where
  "okPayload candidates =
     \<lparr> results = candidates, GooglePlacesApiResponse.status = ''OK'',
       error_message = None, next_page_token = None \<rparr>"

definition candidate :: "string \<Rightarrow> string \<Rightarrow> string list \<Rightarrow> GooglePlaceResponse" where
  "candidate i n ts =
     \<lparr> place_id = i, GooglePlaceResponse.name = n, GooglePlaceResponse.types = ts,
       business_status = None, formatted_address = None,
       geometry = \<lparr> location = \<lparr> lat = 0, lng = 0 \<rparr> \<rparr>,
       GooglePlaceResponse.rating = None, user_ratings_total = None,
       GooglePlaceResponse.vicinity = None, photos = None, opening_hours = None \<rparr>"

definition twoCandidates :: "GooglePlaceResponse list" where
  "twoCandidates =
     [candidate ''ChIJ-1'' ''City Museum'' [''museum''],
      candidate ''ChIJ-2'' ''Old Fort'' [''premise'']]"

definition cafe :: "GooglePlaceResponse list" where
  "cafe = [candidate ''ChIJ-3'' ''Corner Cafe'' [''restaurant'', ''food'']]"

definition offlineEnv :: Environment where
  "offlineEnv =
     \<lparr> REACT_APP_GOOGLE_PLACES_API_KEY = Some ''KEY'',
       fetch = (\<lambda>request. Inl FetchError),
       numberToString = (\<lambda>x. ''0'') \<rparr>"

definition noKeyEnv :: Environment where
  "noKeyEnv =
     \<lparr> REACT_APP_GOOGLE_PLACES_API_KEY = None,
       fetch = (\<lambda>request. Inr \<lparr> Response.status = 200, body = Some (PlacesApiJson (okPayload [])) \<rparr>),
       numberToString = (\<lambda>x. ''0'') \<rparr>"

definition secondPathEnv :: "GooglePlaceResponse list \<Rightarrow> Environment" where
  "secondPathEnv candidates =
     \<lparr> REACT_APP_GOOGLE_PLACES_API_KEY = Some ''KEY'',
       fetch = (\<lambda>request.
         if startsWith (url request) ''https://corsproxy.io/?''
         then Inr \<lparr> Response.status = 200, body = Some (PlacesApiJson (okPayload candidates)) \<rparr>
         else Inr \<lparr> Response.status = 403, body = None \<rparr>),
       numberToString = (\<lambda>x. ''0'') \<rparr>"

definition charminar :: GooglePlaceResponse where
  "charminar =
     \<lparr> place_id = ''ChIJ-charminar'', GooglePlaceResponse.name = ''Charminar'',
       GooglePlaceResponse.types = [''tourist_attraction''],
       business_status = None, formatted_address = Some ''Charminar Rd, Hyderabad'',
       geometry = \<lparr> location = \<lparr> lat = 17.3850 + 1.11 / 6371 * (180 / pi), lng = 78.4867 \<rparr> \<rparr>,
       GooglePlaceResponse.rating = None, user_ratings_total = None,
       GooglePlaceResponse.vicinity = None, photos = None, opening_hours = None \<rparr>"

definition allOriginsEnv :: "GooglePlaceResponse list \<Rightarrow> Environment" where
  "allOriginsEnv candidates =
     \<lparr> REACT_APP_GOOGLE_PLACES_API_KEY = Some ''KEY'',
       fetch = (\<lambda>request.
         Inr \<lparr> Response.status = 200,
               body = Some (AllOriginsJson (Some 200) (Some (PlacesApiJson (okPayload candidates)))) \<rparr>),
       numberToString = (\<lambda>x. ''0'') \<rparr>"

definition charminarDescription :: string where
  \<comment> \<open>the description that the normaliser builds in the Charminar scenario\<close>
  "charminarDescription = ''Charminar is a renowned heritage site and tourist destination. Located in Charminar Rd, this site offers visitors a glimpse into the rich history and cultural traditions that have shaped this region over centuries.''"

definition photoCandidate :: GooglePlaceResponse where
  "photoCandidate =
     (candidate ''ChIJ-4'' ''Town Hall'' [''premise''])
       \<lparr> photos := Some [\<lparr> height = 300, width = 400, photo_reference = ''REF'' \<rparr>] \<rparr>"

definition fortTagged :: GooglePlaceResponse where
  "fortTagged = candidate ''ChIJ-5'' ''Hill Citadel'' [''fort'']"

definition sameIdTwice :: "GooglePlaceResponse list" where
  "sameIdTwice =
     [candidate ''ChIJ-1'' ''City Museum'' [''museum''],
      candidate ''ChIJ-1'' ''City Museum Annex'' [''museum'']]"

section \<open>Properties of the distance and its label\<close>

text \<open>
  In exact arithmetic the formula of \<open>calculateDistance\<close> is symmetric in its two
  coordinates, and the haversine term, the argument of the two square roots, lies
  between 0 and 1. Both facts are about the formula, not about the program: the term
  that the program computes in binary64 can exceed 1 by a rounding error.
\<close>

lemma haversine_symmetric_in_exact_arithmetic:
  "calculateDistance lat1 lon1 lat2 lon2 = calculateDistance lat2 lon2 lat1 lon1"
proof -
  have sn: "sin ((x - y) * pi / 180 / 2) = - sin ((y - x) * pi / 180 / 2)" for x y :: real
  proof -
    have "x - y = - (y - x)" by simp
    then have "(x - y) * pi / 180 / 2 = - ((y - x) * pi / 180 / 2)"
      by (simp only: mult_minus_left divide_minus_left)
    then show ?thesis by (simp only: sin_minus)
  qed
  show ?thesis
    unfolding calculateDistance_def Let_def
    by (simp only: sn[of lat2 lat1] sn[of lon2 lon1] mult_minus_left mult_minus_right
          minus_minus mult.commute[of "cos (lat2 * pi / 180)" "cos (lat1 * pi / 180)"])
qed

lemma haversine_range:
  fixes p q e :: real
  defines "a \<equiv> sin ((q - p) / 2) * sin ((q - p) / 2) + cos p * cos q * sin e * sin e"
  shows "0 \<le> a \<and> a \<le> 1"
proof -
  define S where "S = (sin ((q - p) / 2))\<^sup>2"
  define K where "K = (cos ((p + q) / 2))\<^sup>2"
  define s where "s = (sin e)\<^sup>2"
  have h1: "2 * ((q - p) / 2) = q - p" and h2: "2 * ((p + q) / 2) = p + q" by simp_all
  have c1: "cos (q - p) = 1 - 2 * S"
    using cos_double_sin[of "(q - p) / 2"] unfolding h1 S_def .
  have c2: "cos (p + q) = 2 * K - 1"
    using cos_double_cos[of "(p + q) / 2"] unfolding h2 K_def .
  have "cos p * cos q = (cos (p - q) + cos (p + q)) / 2" by (rule cos_times_cos)
  also have "cos (p - q) = cos (q - p)" using cos_minus[of "q - p"] by simp
  finally have C: "cos p * cos q = K - S" using c1 c2 by simp
  have "a = S + (cos p * cos q) * s"
    unfolding a_def S_def s_def by (simp add: power2_eq_square mult.assoc)
  then have "a = S + (K - S) * s" by (simp only: C)
  then have a: "a = S * (1 - s) + s * K" by (simp add: algebra_simps)
  have S: "0 \<le> S" "S \<le> 1" unfolding S_def by (simp_all add: abs_square_le_1)
  have K: "0 \<le> K" "K \<le> 1" unfolding K_def by (simp_all add: abs_square_le_1)
  have s: "0 \<le> s" "s \<le> 1" unfolding s_def by (simp_all add: abs_square_le_1)
  have "0 \<le> S * (1 - s) + s * K" using S K s by simp
  moreover have "S * (1 - s) + s * K \<le> 1 * (1 - s) + s * 1"
    using S K s by (intro add_mono mult_right_mono mult_left_mono) simp_all
  ultimately show ?thesis unfolding a by simp
qed

lemma digitChar_digit: "digitChar n \<in> set ''0123456789''"
proof -
  have "n mod 10 < length ''0123456789''" by simp
  then show ?thesis unfolding digitChar_def by (rule nth_mem)
qed

lemma natToString_digits: "isDigits (natToString n)"
proof (induction n rule: natToString.induct)
  case (1 n)
  show ?case
  proof (cases "n < 10")
    case True
    then show ?thesis using digitChar_digit[of n]
      by (subst natToString.simps) (simp add: isDigits_def)
  next
    case False
    with 1 have "isDigits (natToString (n div 10))" by simp
    then show ?thesis using False digitChar_digit[of "n mod 10"]
      by (subst natToString.simps) (simp add: isDigits_def)
  qed
qed

lemma natToString_one_digit: "f < 10 \<Longrightarrow> natToString f = [digitChar f]"
  by (subst natToString.simps) simp

lemma fdiv_nonneg: "0 \<le> fdiv p q"
  by (simp add: fdiv_def Let_def)

lemma kilometre_shape:
  "isKilometreLabel (natToString w @ ''.'' @ natToString (n mod 10) @ ''km'')"
proof -
  let ?w = "natToString w"
  have d: "isDigits ?w" by (rule natToString_digits)
  then have ne: "Suc 0 \<le> length ?w" by (cases ?w) (simp_all add: isDigits_def)
  have f: "natToString (n mod 10) = [digitChar (n mod 10)]"
    by (rule natToString_one_digit) simp
  have fd: "isDigits [digitChar (n mod 10)]"
    using digitChar_digit[of "n mod 10"] by (simp add: isDigits_def)
  show ?thesis
    using d fd ne unfolding f isKilometreLabel_def Let_def
    by (simp add: nth_append)
qed

lemma metre_shape: "isMetreLabel (natToString n @ ''m'')"
  using natToString_digits[of n] by (simp add: isMetreLabel_def butlast_append)

lemma kilometre_not_metre: "isKilometreLabel s \<Longrightarrow> \<not> isMetreLabel s"
proof
  assume k: "isKilometreLabel s" and m: "isMetreLabel s"
  let ?n = "length s"
  from k have n: "5 \<le> ?n" and dr: "drop (?n - 2) s = ''km''"
    by (simp_all add: isKilometreLabel_def Let_def)
  from dr have "drop (?n - 2) s ! 0 = CHR ''k''" by simp
  with n have sk: "s ! (?n - 2) = CHR ''k''" by simp
  from m have "list_all (\<lambda>c. c \<in> set ''0123456789'') (butlast s)"
    by (simp add: isMetreLabel_def isDigits_def)
  moreover have "butlast s ! (?n - 2) = s ! (?n - 2)" using n by (simp add: nth_butlast)
  moreover have "?n - 2 < length (butlast s)" using n by simp
  ultimately have "s ! (?n - 2) \<in> set ''0123456789''"
    by (metis list_all_length)
  with sk show False by simp
qed

lemma formatDistance_1000: "formatDistance 1000 = ''1000m''"
  by (simp add: formatDistance_def intToString_def natToString.simps digitChar_def)

lemma formatDistance_1001: "formatDistance 1001 = ''1.0km''"
  by (simp add: formatDistance_def toFixed1_def fdiv_def bitLength.simps roundHalfEven_def
      Let_def natToString.simps digitChar_def)

lemma digit_value: "k < 10 \<Longrightarrow> of_char (''0123456789'' ! k) - (48::nat) = k"
  by (simp add: nth_Cons split: nat.splits)

lemma digitChar_value: "of_char (digitChar n) - (48::nat) = n mod 10"
  unfolding digitChar_def by (rule digit_value) simp

lemma decimalValue_snoc: "decimalValue (s @ [c]) = 10 * decimalValue s + (of_char c - 48)"
  by (simp add: decimalValue_def)

lemma decimalValue_natToString: "decimalValue (natToString n) = n"
proof (induction n rule: natToString.induct)
  case (1 n)
  show ?case
  proof (cases "n < 10")
    case True
    then show ?thesis
      by (subst natToString.simps) (simp add: decimalValue_def digitChar_value)
  next
    case False
    with 1 have "decimalValue (natToString (n div 10)) = n div 10" by simp
    then show ?thesis using False
      by (subst natToString.simps) (simp add: decimalValue_snoc digitChar_value)
  qed
qed

lemma roundHalfEven_near:
  assumes "0 < q"
  shows "\<bar>2 * (int (roundHalfEven p q) * int q - int p)\<bar> \<le> int q"
proof -
  define k where "k = p div q"
  define r where "r = p mod q"
  have p: "int p = int k * int q + int r" unfolding k_def r_def
    by (metis div_mult_mod_eq of_nat_add of_nat_mult)
  have r: "r < q" unfolding r_def using assms by simp
  have "roundHalfEven p q = k \<and> 2 * r \<le> q \<or> roundHalfEven p q = k + 1 \<and> q \<le> 2 * r"
    unfolding roundHalfEven_def Let_def k_def[symmetric] r_def[symmetric] by auto
  then show ?thesis
  proof
    assume "roundHalfEven p q = k \<and> 2 * r \<le> q"
    then show ?thesis using p by simp
  next
    assume a: "roundHalfEven p q = k + 1 \<and> q \<le> 2 * r"
    then have "int (roundHalfEven p q) * int q - int p = int q - int r"
      using p by (simp add: algebra_simps)
    then show ?thesis using a r by simp
  qed
qed

lemma bitLength_le: "n < 2 ^ k \<Longrightarrow> bitLength n \<le> k"
proof (induction n arbitrary: k rule: bitLength.induct)
  case (1 n)
  show ?case
  proof (cases "n = 0")
    case True
    then show ?thesis by (subst bitLength.simps) simp
  next
    case False
    then obtain j where k: "k = Suc j" using "1.prems" by (cases k) auto
    from "1.prems" k have "n div 2 < 2 ^ j" by auto
    with 1 False have "bitLength (n div 2) \<le> j" by simp
    then show ?thesis using False k by (subst bitLength.simps) simp
  qed
qed

lemma bitLength_1000: "bitLength 1000 = 10"
  by (simp add: bitLength.simps)

lemma fdiv_1000_near:
  assumes m: "m < 2 ^ 53"
  shows "\<exists>s. 9 \<le> s \<and> \<bar>fdiv m 1000 - real m / 1000\<bar> \<le> 1 / 2 ^ (s + 1)"
proof -
  define s0 where "s0 = 52 + int (bitLength 1000) - int (bitLength m)"
  define s where "s = (if m * 2 ^ nat s0 < 2 ^ 52 * 1000 then s0 + 1 else s0)"
  have b: "bitLength m \<le> 53" using m by (rule bitLength_le)
  then have s0: "9 \<le> s0" by (simp add: s0_def bitLength_1000)
  then have s9: "9 \<le> s" by (simp add: s_def)
  define t where "t = nat s"
  have t: "9 \<le> t" "int t = s" using s9 by (simp_all add: t_def)
  define M where "M = roundHalfEven (m * 2 ^ t) 1000"
  have f: "fdiv m 1000 = real M / 2 ^ t"
    using s0 s9 unfolding fdiv_def Let_def s0_def[symmetric] M_def t_def s_def
    by (auto simp: nat_add_distrib)
  have "\<bar>2 * (int M * int 1000 - int (m * 2 ^ t))\<bar> \<le> int 1000"
    unfolding M_def by (rule roundHalfEven_near) simp
  then have "\<bar>2 * (real M * 1000 - real m * 2 ^ t)\<bar> \<le> 1000"
    by (metis (mono_tags, opaque_lifting) of_int_abs of_int_diff of_int_le_iff of_int_mult
        of_int_numeral of_int_of_nat_eq of_nat_mult of_nat_numeral of_nat_power)
  then have "\<bar>real M - real m * 2 ^ t / 1000\<bar> \<le> 1 / 2" by (simp add: abs_le_iff field_simps)
  then have "\<bar>real M - real m * 2 ^ t / 1000\<bar> / 2 ^ t \<le> (1 / 2) / 2 ^ t"
    by (intro divide_right_mono) simp_all
  moreover have "real M / 2 ^ t - real m / 1000 = (real M - real m * 2 ^ t / 1000) / 2 ^ t"
    by (simp add: diff_divide_distrib)
  then have "\<bar>real M - real m * 2 ^ t / 1000\<bar> / 2 ^ t = \<bar>real M / 2 ^ t - real m / 1000\<bar>"
    by simp
  ultimately have "\<bar>fdiv m 1000 - real m / 1000\<bar> \<le> 1 / 2 ^ (t + 1)"
    by (simp add: f)
  with t show ?thesis by blast
qed

lemma toFixed1_fdiv_near:
  assumes m: "m < 2 ^ 53"
  shows "\<bar>100 * \<lfloor>10 * fdiv m 1000 + 1 / 2\<rfloor> - int m\<bar> \<le> 50"
proof -
  define x where "x = fdiv m 1000"
  define n where "n = \<lfloor>10 * x + 1 / 2\<rfloor>"
  from fdiv_1000_near[OF m] obtain s where s: "9 \<le> s"
    and near: "\<bar>x - real m / 1000\<bar> \<le> 1 / 2 ^ (s + 1)" unfolding x_def by blast
  have "(2::real) ^ 10 \<le> 2 ^ (s + 1)" using s by (intro power_increasing) simp_all
  then have p: "(1024::real) \<le> 2 ^ (s + 1)" by simp
  have q: "1 / 2 ^ (s + 1) \<le> 1 / (1024::real)"
    by (rule frac_le) (use p in simp_all)
  have e: "\<bar>x - real m / 1000\<bar> \<le> 1 / 1024" by (rule order_trans[OF near q])
  have lo: "of_int n \<le> 10 * x + 1 / 2" unfolding n_def by (rule of_int_floor_le)
  have hi: "10 * x + 1 / 2 < of_int n + 1" unfolding n_def by linarith
  from e have e1: "x \<le> real m / 1000 + 1 / 1024" and e2: "real m / 1000 - 1 / 1024 \<le> x"
    unfolding abs_le_iff by linarith+
  have a: "100 * n < int m + 51"
  proof -
    have "100 * real_of_int n < real m + 51" using lo e1 by linarith
    then have "real_of_int (100 * n) < real_of_int (int m + 51)" by simp
    then show ?thesis by (simp only: of_int_less_iff)
  qed
  have b: "int m - 51 < 100 * n"
  proof -
    have "real m - 51 < 100 * real_of_int n" using hi e2 by linarith
    then have "real_of_int (int m - 51) < real_of_int (100 * n)" by simp
    then show ?thesis by (simp only: of_int_less_iff)
  qed
  from a b show ?thesis unfolding n_def x_def by simp
qed

lemma kilometre_label_value:
  assumes "1000 < m" and "m < 2 ^ 53"
  shows "\<exists>w f. f < 10 \<and> formatDistance (int m) = natToString w @ ''.'' @ natToString f @ ''km'' \<and>
           \<bar>100 * (10 * int w + int f) - int m\<bar> \<le> 50"
proof -
  define n where "n = nat \<lfloor>10 * fdiv m 1000 + 1 / 2\<rfloor>"
  have nn: "0 \<le> \<lfloor>10 * fdiv m 1000 + 1 / 2\<rfloor>" using fdiv_nonneg[of m 1000] by simp
  have fd: "formatDistance (int m) = natToString (n div 10) @ ''.'' @ natToString (n mod 10) @ ''km''"
    using assms(1) fdiv_nonneg[of m 1000]
    by (simp add: formatDistance_def toFixed1_def Let_def n_def)
  have "int n = \<lfloor>10 * fdiv m 1000 + 1 / 2\<rfloor>" using nn by (simp add: n_def)
  then have "\<bar>100 * int n - int m\<bar> \<le> 50" using toFixed1_fdiv_near[OF assms(2)] by simp
  moreover have "int n = 10 * int (n div 10) + int (n mod 10)"
    by (metis mult_div_mod_eq of_nat_add of_nat_mult of_nat_numeral)
  ultimately have "\<bar>100 * (10 * int (n div 10) + int (n mod 10)) - int m\<bar> \<le> 50" by simp
  moreover have "n mod 10 < 10" by simp
  ultimately show ?thesis using fd by blast
qed

lemma metre_label_value:
  assumes "m \<le> 1000"
  shows "formatDistance (int m) = natToString m @ ''m'' \<and> decimalValue (natToString m) = m"
  using assms by (simp add: formatDistance_def intToString_def decimalValue_natToString)

text \<open>
  C6: for every non-negative whole number of metres \<open>m\<close>, the label is kilometres with
  one fractional digit and the suffix \<open>km\<close> exactly when \<open>m > 1000\<close>, and whole metres
  with the suffix \<open>m\<close> otherwise; 1000 gives \<open>1000m\<close> and 1001 gives \<open>1.0km\<close>. The
  metres printed are \<open>m\<close> itself, and the kilometres printed are \<open>m / 1000\<close> rounded
  to a nearest tenth, for every \<open>m\<close> below \<open>2\<^sup>5\<^sup>3\<close>.
\<close>

theorem formatDistance_boundary:
  fixes m :: nat
  shows "isKilometreLabel (formatDistance (int m)) = (1000 < m) \<and>
         isMetreLabel (formatDistance (int m)) = (m \<le> 1000) \<and>
         (m \<le> 1000 \<longrightarrow>
            formatDistance (int m) = natToString m @ ''m'' \<and> decimalValue (natToString m) = m) \<and>
         (1000 < m \<and> m < 2 ^ 53 \<longrightarrow>
            (\<exists>w f. f < 10 \<and>
               formatDistance (int m) = natToString w @ ''.'' @ natToString f @ ''km'' \<and>
               \<bar>100 * (10 * int w + int f) - int m\<bar> \<le> 50)) \<and>
         formatDistance 1000 = ''1000m'' \<and> formatDistance 1001 = ''1.0km''"
proof -
  have km: "isKilometreLabel (formatDistance (int m))" if "1000 < m"
    using that kilometre_shape fdiv_nonneg[of m 1000]
    by (simp add: formatDistance_def toFixed1_def Let_def)
  have me: "isMetreLabel (formatDistance (int m))" if "m \<le> 1000"
    using that metre_shape by (simp add: formatDistance_def intToString_def)
  have a: "isKilometreLabel (formatDistance (int m)) = (1000 < m)"
    using km me kilometre_not_metre by (cases "1000 < m") auto
  have b: "isMetreLabel (formatDistance (int m)) = (m \<le> 1000)"
    using km me kilometre_not_metre by (cases "1000 < m") auto
  show ?thesis
    using a b metre_label_value[of m] kilometre_label_value[of m]
      formatDistance_1000 formatDistance_1001
    by blast
qed

theorem formatDistance_boundary_witness:
  "formatDistance 800 = natToString 800 @ ''m'' \<and> decimalValue (natToString 800) = 800 \<and>
   isMetreLabel (formatDistance 800) \<and> isKilometreLabel (formatDistance 1150) \<and>
   (\<exists>w f. f < 10 \<and> formatDistance 1150 = natToString w @ ''.'' @ natToString f @ ''km'' \<and>
      \<bar>100 * (10 * int w + int f) - 1150\<bar> \<le> 50)"
proof -
  have i: "int 800 = 800" "int 1150 = 1150" by simp_all
  have a: "(800::nat) \<le> 1000" by simp
  have b: "(1000::nat) < 1150 \<and> (1150::nat) < 2 ^ 53" by simp
  from formatDistance_boundary[of 800, unfolded i] formatDistance_boundary[of 1150, unfolded i]
    a b
  show ?thesis by blast
qed

section \<open>Properties of binary64 rounding\<close>

text \<open>
  Rounding moves a number by at most half a unit in its last place, a relative error
  of at most \<open>2\<^sup>-\<^sup>5\<^sup>3\<close>. A concrete number is rounded by \<open>binary64_eval\<close>, given the
  power of two below it.
\<close>

lemma roundTiesToEven_near: "\<bar>of_int (roundTiesToEven y) - y\<bar> \<le> 1 / 2"
proof -
  have "of_int \<lfloor>y\<rfloor> \<le> y" and "y < of_int \<lfloor>y\<rfloor> + 1" by linarith+
  then show ?thesis unfolding roundTiesToEven_def Let_def by (auto simp: abs_le_iff)
qed

lemma binary64_minus: "binary64 (- x) = - binary64 x"
  by (simp add: binary64_def Let_def)

lemma binary64_error: "\<bar>binary64 x - x\<bar> \<le> \<bar>x\<bar> / 2 ^ 53"
proof (cases "x = 0")
  case True
  then show ?thesis by (simp add: binary64_def)
next
  case False
  define e where "e = \<lfloor>log 2 \<bar>x\<bar>\<rfloor>"
  define u :: real where "u = 2 powr (of_int e - 52)"
  define y :: real where "y = \<bar>x\<bar> / u"
  have u: "0 < u" by (simp add: u_def)
  have b: "binary64 x = sgn x * of_int (roundTiesToEven y) * u"
    using False by (simp add: binary64_def Let_def e_def u_def y_def)
  have x: "x = sgn x * y * u" using u by (simp add: y_def sgn_mult_abs)
  have "binary64 x - x = sgn x * u * (of_int (roundTiesToEven y) - y)"
    by (subst b, subst (2) x) (simp add: algebra_simps)
  then have "\<bar>binary64 x - x\<bar> = u * \<bar>of_int (roundTiesToEven y) - y\<bar>"
    using False u by (simp add: abs_mult abs_sgn_eq)
  also have "\<dots> \<le> u * (1 / 2)"
    using roundTiesToEven_near[of y] u by (intro mult_left_mono) simp_all
  finally have h: "\<bar>binary64 x - x\<bar> \<le> u / 2" by simp
  have "of_int e \<le> log 2 \<bar>x\<bar>" unfolding e_def by (rule of_int_floor_le)
  then have "2 powr (of_int e) \<le> 2 powr (log 2 \<bar>x\<bar>)" by (simp add: powr_mono)
  also have "\<dots> = \<bar>x\<bar>" using False by simp
  finally have p: "2 powr (of_int e) \<le> \<bar>x\<bar>" .
  have "u = 2 powr (of_int e) / 2 ^ 52"
    unfolding u_def by (simp add: powr_diff powr_numeral)
  with p have "u \<le> \<bar>x\<bar> / 2 ^ 52" by (simp add: divide_right_mono)
  with h show ?thesis by simp
qed

lemma binary64_eval:
  assumes "2 powr (of_int e) \<le> \<bar>x\<bar>" and "\<bar>x\<bar> < 2 powr (of_int e + 1)"
  shows "binary64 x =
    sgn x * of_int (roundTiesToEven (\<bar>x\<bar> / 2 powr (of_int e - 52))) * 2 powr (of_int e - 52)"
proof -
  have "0 < (2::real) powr (of_int e)" by simp
  with assms(1) have x: "x \<noteq> 0" by auto
  have "\<lfloor>log 2 \<bar>x\<bar>\<rfloor> = e"
  proof (rule floor_unique)
    show "of_int e \<le> log 2 \<bar>x\<bar>" using assms(1) x by (simp add: le_log_iff)
    show "log 2 \<bar>x\<bar> < of_int e + 1" using assms(2) x by (simp add: log_less_iff)
  qed
  then show ?thesis using x by (simp add: binary64_def Let_def)
qed

lemma binary64_0_01: "binary64 0.01 = 5764607523034235 / 2 ^ 59"
  by (subst binary64_eval[where e = "-7"]) (simp_all add: roundTiesToEven_def Let_def powr_neg_numeral powr_numeral)

lemma binary64_17_385: "binary64 17.385 = 4893442470114755 / 2 ^ 48"
  by (subst binary64_eval[where e = 4]) (simp_all add: roundTiesToEven_def Let_def powr_neg_numeral powr_numeral)

lemma fadd_17_385: "fadd (binary64 17.385) (binary64 0.01) = 2448128609940931 / 2 ^ 47"
  unfolding fadd_def binary64_0_01 binary64_17_385
  by (subst binary64_eval[where e = 4]) (simp_all add: roundTiesToEven_def Let_def powr_neg_numeral powr_numeral)

lemma literal_bound:
  assumes "0 \<le> d" and "d \<le> 0.01"
  shows "\<bar>binary64 d\<bar> \<le> 0.01 + 0.01 / 2 ^ 53"
proof -
  have "\<bar>binary64 d - d\<bar> \<le> \<bar>d\<bar> / 2 ^ 53" by (rule binary64_error)
  also have "\<dots> \<le> 0.01 / 2 ^ 53" using assms by (intro divide_right_mono) simp_all
  finally have "\<bar>binary64 d - d\<bar> \<le> 0.01 / 2 ^ 53" .
  with assms show ?thesis by linarith
qed

lemma offset_bound:
  assumes c: "\<bar>c\<bar> \<le> 0.01 + 0.01 / 2 ^ 53"
  shows "\<bar>binary64 (x + c) - x\<bar> \<le> 0.01 + (\<bar>x\<bar> + 0.03) / 2 ^ 53"
proof -
  have "\<bar>binary64 (x + c) - (x + c)\<bar> \<le> \<bar>x + c\<bar> / 2 ^ 53" by (rule binary64_error)
  also have "\<dots> \<le> (\<bar>x\<bar> + \<bar>c\<bar>) / 2 ^ 53" by (intro divide_right_mono) simp_all
  finally have e: "\<bar>binary64 (x + c) - (x + c)\<bar> \<le> (\<bar>x\<bar> + \<bar>c\<bar>) / 2 ^ 53" .
  have "\<bar>binary64 (x + c) - x\<bar> \<le> \<bar>binary64 (x + c) - (x + c)\<bar> + \<bar>c\<bar>" by linarith
  with e have "\<bar>binary64 (x + c) - x\<bar> \<le> (\<bar>x\<bar> + \<bar>c\<bar>) / 2 ^ 53 + \<bar>c\<bar>" by linarith
  with c show ?thesis by (simp add: field_simps) 
qed

lemma fadd_near:
  assumes "0 \<le> d" and "d \<le> 0.01"
  shows "\<bar>fadd x (binary64 d) - x\<bar> \<le> 0.01 + (\<bar>x\<bar> + 0.03) / 2 ^ 53"
  unfolding fadd_def by (rule offset_bound) (rule literal_bound[OF assms])

lemma fsub_near:
  assumes "0 \<le> d" and "d \<le> 0.01"
  shows "\<bar>fsub x (binary64 d) - x\<bar> \<le> 0.01 + (\<bar>x\<bar> + 0.03) / 2 ^ 53"
proof -
  have "\<bar>- binary64 d\<bar> \<le> 0.01 + 0.01 / 2 ^ 53" using literal_bound[OF assms] by simp
  then have "\<bar>binary64 (x + - binary64 d) - x\<bar> \<le> 0.01 + (\<bar>x\<bar> + 0.03) / 2 ^ 53"
    by (rule offset_bound)
  then show ?thesis by (simp add: fsub_def)
qed

section \<open>Properties of the proxy chain\<close>

lemma tryProxy_requests:
  "fst (tryProxy env targetUrl la lo corsProxy) = [buildRequest corsProxy targetUrl]"
  by (simp add: tryProxy_def Let_def)

lemma tryProxy_step:
  "(case snd (tryProxy env targetUrl la lo corsProxy) of
      Inl proxyError \<Rightarrow> Continue | Inr s \<Rightarrow> s) =
   (case delivered env targetUrl corsProxy of
      None \<Rightarrow> Continue
    | Some payload \<Rightarrow> Return (normalised env la lo (results payload)))"
  by (simp add: tryProxy_def delivered_def readData_def useData_def normalised_def Let_def
      split: sum.splits option.splits json.splits)

lemma tryProxies_exhausted:
  "\<forall>corsProxy \<in> set proxies. delivered env targetUrl corsProxy = None \<Longrightarrow>
   tryProxies env targetUrl la lo proxies =
     (map (\<lambda>corsProxy. buildRequest corsProxy targetUrl) proxies, None)"
proof (induction proxies)
  case Nil
  then show ?case by simp
next
  case (Cons p ps)
  obtain rs oc where t: "tryProxy env targetUrl la lo p = (rs, oc)"
    by (cases "tryProxy env targetUrl la lo p")
  from t have rs: "rs = [buildRequest p targetUrl]"
    using tryProxy_requests[of env targetUrl la lo p] by simp
  from Cons.prems have "delivered env targetUrl p = None" by simp
  with t have st: "(case oc of Inl proxyError \<Rightarrow> Continue | Inr s \<Rightarrow> s) = Continue"
    using tryProxy_step[of env targetUrl la lo p] by simp
  from Cons have ih: "tryProxies env targetUrl la lo ps =
     (map (\<lambda>corsProxy. buildRequest corsProxy targetUrl) ps, None)" by simp
  show ?case by (simp add: t st ih rs)
qed

lemma tryProxies_first:
  "i < length proxies \<Longrightarrow>
   \<forall>j < i. delivered env targetUrl (proxies ! j) = None \<Longrightarrow>
   delivered env targetUrl (proxies ! i) = Some payload \<Longrightarrow>
   tryProxies env targetUrl la lo proxies =
     (map (\<lambda>corsProxy. buildRequest corsProxy targetUrl) (take (Suc i) proxies),
      Some (normalised env la lo (results payload)))"
proof (induction proxies arbitrary: i)
  case Nil
  then show ?case by simp
next
  case (Cons p ps)
  obtain rs oc where t: "tryProxy env targetUrl la lo p = (rs, oc)"
    by (cases "tryProxy env targetUrl la lo p")
  from t have rs: "rs = [buildRequest p targetUrl]"
    using tryProxy_requests[of env targetUrl la lo p] by simp
  show ?case
  proof (cases i)
    case 0
    with Cons.prems have "delivered env targetUrl p = Some payload" by simp
    with t have st: "(case oc of Inl proxyError \<Rightarrow> Continue | Inr s \<Rightarrow> s) =
        Return (normalised env la lo (results payload))"
      using tryProxy_step[of env targetUrl la lo p] by simp
    show ?thesis by (simp add: t st rs 0)
  next
    case (Suc k)
    with Cons.prems have "delivered env targetUrl p = None" by auto
    with t have st: "(case oc of Inl proxyError \<Rightarrow> Continue | Inr s \<Rightarrow> s) = Continue"
      using tryProxy_step[of env targetUrl la lo p] by simp
    have k: "k < length ps" using Cons.prems(1) Suc by simp
    have n: "\<forall>j < k. delivered env targetUrl (ps ! j) = None"
      using Cons.prems(2) Suc by auto
    have d: "delivered env targetUrl (ps ! k) = Some payload"
      using Cons.prems(3) Suc by simp
    have ih: "tryProxies env targetUrl la lo ps =
       (map (\<lambda>corsProxy. buildRequest corsProxy targetUrl) (take (Suc k) ps),
        Some (normalised env la lo (results payload)))"
      by (rule Cons.IH[OF k n d])
    show ?thesis by (simp add: t st ih rs Suc)
  qed
qed

lemma fetch_without_key:
  "\<not> truthy (REACT_APP_GOOGLE_PLACES_API_KEY env) \<Longrightarrow>
   fetchHistoricPlacesWithCORS env la lo = ([], Inr (getFallbackHistoricPlaces la lo))"
  by (simp add: fetchHistoricPlacesWithCORS_def fetchBody_def Let_def)

lemma fetch_exhausted:
  "truthy (REACT_APP_GOOGLE_PLACES_API_KEY env) \<Longrightarrow>
   \<forall>corsProxy \<in> set corsProxies. delivered env (targetUrlOf env la lo) corsProxy = None \<Longrightarrow>
   fetchHistoricPlacesWithCORS env la lo =
     (map (\<lambda>corsProxy. buildRequest corsProxy (targetUrlOf env la lo)) corsProxies,
      Inr (getFallbackHistoricPlaces la lo))"
  using tryProxies_exhausted[of corsProxies env "targetUrlOf env la lo" la lo]
  by (simp add: fetchHistoricPlacesWithCORS_def fetchBody_def targetUrlOf_def Let_def)

lemma fetch_first:
  "truthy (REACT_APP_GOOGLE_PLACES_API_KEY env) \<Longrightarrow>
   i < length corsProxies \<Longrightarrow>
   \<forall>j < i. delivered env (targetUrlOf env la lo) (corsProxies ! j) = None \<Longrightarrow>
   delivered env (targetUrlOf env la lo) (corsProxies ! i) = Some payload \<Longrightarrow>
   fetchHistoricPlacesWithCORS env la lo =
     (map (\<lambda>corsProxy. buildRequest corsProxy (targetUrlOf env la lo))
        (take (Suc i) corsProxies),
      Inr (normalised env la lo (results payload)))"
  using tryProxies_first[of i corsProxies env "targetUrlOf env la lo" payload la lo]
  by (simp add: fetchHistoricPlacesWithCORS_def fetchBody_def targetUrlOf_def Let_def)

text \<open>
  C1: whatever the coordinate and whatever the environment does on each path, the
  promise of \<open>fetchHistoricPlacesWithCORS\<close> resolves with a list of places; it never
  rejects.
\<close>

theorem fetchHistoricPlacesWithCORS_resolves:
  "\<exists>requests locations.
     fetchHistoricPlacesWithCORS env latitude' longitude' = (requests, Inr locations)"
  by (simp add: fetchHistoricPlacesWithCORS_def fetchBody_def Let_def
      split: prod.splits sum.splits option.splits)

lemma first_or_none:
  "(\<forall>x \<in> set xs. f x = None) \<or>
   (\<exists>i y. i < length xs \<and> (\<forall>j < i. f (xs ! j) = None) \<and> f (xs ! i) = Some y)"
proof (induction xs)
  case Nil
  then show ?case by simp
next
  case (Cons x xs)
  show ?case
  proof (cases "f x")
    case (Some y)
    then have "0 < length (x # xs) \<and> (\<forall>j < 0. f ((x # xs) ! j) = None) \<and> f ((x # xs) ! 0) = Some y"
      by simp
    then show ?thesis by blast
  next
    case None
    from Cons show ?thesis
    proof
      assume "\<forall>x \<in> set xs. f x = None"
      with None show ?thesis by simp
    next
      assume "\<exists>i y. i < length xs \<and> (\<forall>j < i. f (xs ! j) = None) \<and> f (xs ! i) = Some y"
      then obtain i y where i: "i < length xs" "\<forall>j < i. f (xs ! j) = None" "f (xs ! i) = Some y"
        by blast
      have "\<forall>j < Suc i. f ((x # xs) ! j) = None"
      proof (intro allI impI)
        fix j assume "j < Suc i"
        then show "f ((x # xs) ! j) = None" using None i(2) by (cases j) auto
      qed
      with i have "Suc i < length (x # xs) \<and> (\<forall>j < Suc i. f ((x # xs) ! j) = None) \<and>
          f ((x # xs) ! Suc i) = Some y" by simp
      then show ?thesis by blast
    qed
  qed
qed

lemma requests_distinct:
  "distinct (map (\<lambda>corsProxy. buildRequest corsProxy targetUrl) corsProxies)"
  by (simp add: corsProxies_def buildRequest_def)

text \<open>
  C3: with an access key, the chain walks its fixed list of paths in order and tries
  each path at most once. When path \<open>i\<close> is the first that succeeds, the requests made
  are exactly those of the paths up to \<open>i\<close>, no later path is tried, and the result is
  built from the candidate list of path \<open>i\<close>. When no path succeeds, every path was
  tried exactly once, in order, before the fallback is returned.
\<close>

theorem proxy_chain_sequential:
  assumes key: "truthy (REACT_APP_GOOGLE_PLACES_API_KEY env)"
  shows "(\<forall>i payload.
            i < length corsProxies \<and>
            (\<forall>j < i. delivered env (targetUrlOf env la lo) (corsProxies ! j) = None) \<and>
            delivered env (targetUrlOf env la lo) (corsProxies ! i) = Some payload \<longrightarrow>
            fetchHistoricPlacesWithCORS env la lo =
              (map (\<lambda>corsProxy. buildRequest corsProxy (targetUrlOf env la lo))
                 (take (Suc i) corsProxies),
               Inr (normalised env la lo (results payload)))) \<and>
         ((\<forall>corsProxy \<in> set corsProxies.
             delivered env (targetUrlOf env la lo) corsProxy = None) \<longrightarrow>
            fetchHistoricPlacesWithCORS env la lo =
              (map (\<lambda>corsProxy. buildRequest corsProxy (targetUrlOf env la lo)) corsProxies,
               Inr (getFallbackHistoricPlaces la lo))) \<and>
         (\<exists>k \<le> length corsProxies.
            fst (fetchHistoricPlacesWithCORS env la lo) =
              map (\<lambda>corsProxy. buildRequest corsProxy (targetUrlOf env la lo))
                (take k corsProxies)) \<and>
         distinct (fst (fetchHistoricPlacesWithCORS env la lo))"
proof -
  let ?t = "targetUrlOf env la lo"
  let ?B = "\<lambda>corsProxy. buildRequest corsProxy ?t"
  let ?r = "fetchHistoricPlacesWithCORS env la lo"
  have a: "\<forall>i payload.
            i < length corsProxies \<and>
            (\<forall>j < i. delivered env ?t (corsProxies ! j) = None) \<and>
            delivered env ?t (corsProxies ! i) = Some payload \<longrightarrow>
            ?r = (map ?B (take (Suc i) corsProxies), Inr (normalised env la lo (results payload)))"
    using fetch_first[OF key] by blast
  have b: "(\<forall>corsProxy \<in> set corsProxies. delivered env ?t corsProxy = None) \<longrightarrow>
            ?r = (map ?B corsProxies, Inr (getFallbackHistoricPlaces la lo))"
    using fetch_exhausted[OF key] by blast
  have c: "\<exists>k \<le> length corsProxies. fst ?r = map ?B (take k corsProxies)"
  proof -
    from first_or_none[of corsProxies "delivered env ?t"] show ?thesis
    proof
      assume "\<forall>x \<in> set corsProxies. delivered env ?t x = None"
      with b have "fst ?r = map ?B (take (length corsProxies) corsProxies)" by simp
      then show ?thesis by blast
    next
      assume "\<exists>i y. i < length corsProxies \<and>
          (\<forall>j < i. delivered env ?t (corsProxies ! j) = None) \<and>
          delivered env ?t (corsProxies ! i) = Some y"
      then obtain i y where i: "i < length corsProxies"
          "\<forall>j < i. delivered env ?t (corsProxies ! j) = None"
          "delivered env ?t (corsProxies ! i) = Some y" by blast
      with a have "fst ?r = map ?B (take (Suc i) corsProxies)" by simp
      moreover have "Suc i \<le> length corsProxies" using i(1) by simp
      ultimately show ?thesis by blast
    qed
  qed
  have d: "distinct (fst ?r)"
  proof -
    from c obtain k where k: "fst ?r = map ?B (take k corsProxies)" by blast
    have "distinct (take k (map ?B corsProxies))"
      using requests_distinct[of ?t] by (rule distinct_take)
    then show ?thesis by (simp add: k take_map)
  qed
  from a b c d show ?thesis by blast
qed


theorem proxy_chain_sequential_witness:
  "truthy (REACT_APP_GOOGLE_PLACES_API_KEY (secondPathEnv twoCandidates)) \<and>
   fetchHistoricPlacesWithCORS (secondPathEnv twoCandidates) 0 0 =
     ([buildRequest ''https://api.allorigins.win/get?url=''
         (targetUrlOf (secondPathEnv twoCandidates) 0 0),
       buildRequest ''https://corsproxy.io/?'' (targetUrlOf (secondPathEnv twoCandidates) 0 0)],
      Inr (normalised (secondPathEnv twoCandidates) 0 0 twoCandidates))"
proof -
  let ?E = "secondPathEnv twoCandidates"
  let ?t = "targetUrlOf ?E 0 0"
  have key: "truthy (REACT_APP_GOOGLE_PLACES_API_KEY ?E)"
    by (simp add: secondPathEnv_def truthy_def)
  have i: "(1::nat) < length corsProxies" by (simp add: corsProxies_def)
  have n: "\<forall>j < (1::nat). delivered ?E ?t (corsProxies ! j) = None"
    by (simp add: corsProxies_def delivered_def secondPathEnv_def buildRequest_def ok_def)
  have d: "delivered ?E ?t (corsProxies ! 1) = Some (okPayload twoCandidates)"
    by (simp add: corsProxies_def delivered_def secondPathEnv_def buildRequest_def ok_def
        okPayload_def)
  from proxy_chain_sequential[OF key, of 0 0] i n d
  have "fetchHistoricPlacesWithCORS ?E 0 0 =
      (map (\<lambda>corsProxy. buildRequest corsProxy ?t) (take (Suc 1) corsProxies),
       Inr (normalised ?E 0 0 (results (okPayload twoCandidates))))"
    by blast
  then show ?thesis using key by (simp add: corsProxies_def okPayload_def)
qed

lemma fallback_coordinates:
  "map (\<lambda>l. (latitude l, longitude l)) (getFallbackHistoricPlaces la lo) =
     [(fadd la (binary64 0.01), fadd lo (binary64 0.01)),
      (fsub la (binary64 0.01), fadd lo (binary64 0.01)),
      (fadd la (binary64 0.005), fsub lo (binary64 0.005)),
      (fsub la (binary64 0.005), fsub lo (binary64 0.01)),
      (fadd la (binary64 0.008), fsub lo (binary64 0.008))]"
  by (simp add: getFallbackHistoricPlaces_def)

lemma fallback_near_anchor:
  "\<forall>l \<in> set (getFallbackHistoricPlaces la lo).
     \<bar>latitude l - la\<bar> \<le> 0.01 + (\<bar>la\<bar> + 0.03) / 2 ^ 53 \<and>
     \<bar>longitude l - lo\<bar> \<le> 0.01 + (\<bar>lo\<bar> + 0.03) / 2 ^ 53"
proof -
  have a: "\<bar>fadd x (binary64 0.01) - x\<bar> \<le> 0.01 + (\<bar>x\<bar> + 0.03) / 2 ^ 53"
      "\<bar>fadd x (binary64 0.005) - x\<bar> \<le> 0.01 + (\<bar>x\<bar> + 0.03) / 2 ^ 53"
      "\<bar>fadd x (binary64 0.008) - x\<bar> \<le> 0.01 + (\<bar>x\<bar> + 0.03) / 2 ^ 53" for x :: real
    by (rule fadd_near; simp)+
  have b: "\<bar>fsub x (binary64 0.01) - x\<bar> \<le> 0.01 + (\<bar>x\<bar> + 0.03) / 2 ^ 53"
      "\<bar>fsub x (binary64 0.005) - x\<bar> \<le> 0.01 + (\<bar>x\<bar> + 0.03) / 2 ^ 53"
      "\<bar>fsub x (binary64 0.008) - x\<bar> \<le> 0.01 + (\<bar>x\<bar> + 0.03) / 2 ^ 53" for x :: real
    by (rule fsub_near; simp)+
  show ?thesis
    using a[of la] a[of lo] b[of la] b[of lo]
    by (simp add: getFallbackHistoricPlaces_def del: abs_le_iff)
qed

text \<open>
  C2, as stated, fails: the offset of a seed entry from its anchor can exceed 0.01.
  The program adds in binary64. At the anchor (17.385, 78.4867) the latitude of the
  first entry is 17.395000000000003, which is more than 0.01 above the anchor's
  17.385000000000002.
\<close>

theorem fallback_seed_set_counterexample:
  "fetchHistoricPlacesWithCORS noKeyEnv (binary64 17.385) (binary64 78.4867) =
     ([], Inr (getFallbackHistoricPlaces (binary64 17.385) (binary64 78.4867))) \<and>
   binary64 17.385 = 4893442470114755 / 2 ^ 48 \<and>
   latitude (getFallbackHistoricPlaces (binary64 17.385) (binary64 78.4867) ! 0) =
     2448128609940931 / 2 ^ 47 \<and>
   0.01 < latitude (getFallbackHistoricPlaces (binary64 17.385) (binary64 78.4867) ! 0) -
            binary64 17.385"
proof -
  have nk: "\<not> truthy (REACT_APP_GOOGLE_PLACES_API_KEY noKeyEnv)"
    by (simp add: noKeyEnv_def truthy_def)
  have l: "latitude (getFallbackHistoricPlaces (binary64 17.385) (binary64 78.4867) ! 0) =
      fadd (binary64 17.385) (binary64 0.01)"
    by (simp add: getFallbackHistoricPlaces_def)
  have "(0.01::real) < 2448128609940931 / 2 ^ 47 - 4893442470114755 / 2 ^ 48" by simp
  then show ?thesis
    using fetch_without_key[OF nk] binary64_17_385
    unfolding l fadd_17_385 by simp
qed

text \<open>
  C2, amended: without an access key the service returns the seed fallback list and
  makes no request at all; with a key and every path failing it returns the same
  list. The list has exactly 5 entries. Each coordinate of an entry is the binary64
  sum or difference of the anchor's coordinate and a fixed constant, one of the
  literals 0.01, 0.005 and 0.008. The result is rounded, so an entry lies within 0.01
  of its anchor only up to rounding: the distance in each coordinate is at most
  \<open>0.01 + (\<bar>a\<bar> + 0.03) / 2\<^sup>5\<^sup>3\<close> for the anchor's coordinate \<open>a\<close>.
\<close>

theorem fallback_seed_set:
  "(\<not> truthy (REACT_APP_GOOGLE_PLACES_API_KEY env) \<longrightarrow>
      fetchHistoricPlacesWithCORS env la lo = ([], Inr (getFallbackHistoricPlaces la lo))) \<and>
   (truthy (REACT_APP_GOOGLE_PLACES_API_KEY env) \<and>
    (\<forall>corsProxy \<in> set corsProxies. delivered env (targetUrlOf env la lo) corsProxy = None) \<longrightarrow>
      snd (fetchHistoricPlacesWithCORS env la lo) = Inr (getFallbackHistoricPlaces la lo)) \<and>
   length (getFallbackHistoricPlaces la lo) = 5 \<and>
   map (\<lambda>l. (latitude l, longitude l)) (getFallbackHistoricPlaces la lo) =
     [(fadd la (binary64 0.01), fadd lo (binary64 0.01)),
      (fsub la (binary64 0.01), fadd lo (binary64 0.01)),
      (fadd la (binary64 0.005), fsub lo (binary64 0.005)),
      (fsub la (binary64 0.005), fsub lo (binary64 0.01)),
      (fadd la (binary64 0.008), fsub lo (binary64 0.008))] \<and>
   (\<forall>l \<in> set (getFallbackHistoricPlaces la lo).
      \<bar>latitude l - la\<bar> \<le> 0.01 + (\<bar>la\<bar> + 0.03) / 2 ^ 53 \<and>
      \<bar>longitude l - lo\<bar> \<le> 0.01 + (\<bar>lo\<bar> + 0.03) / 2 ^ 53)"
proof -
  have a: "\<not> truthy (REACT_APP_GOOGLE_PLACES_API_KEY env) \<longrightarrow>
      fetchHistoricPlacesWithCORS env la lo = ([], Inr (getFallbackHistoricPlaces la lo))"
    using fetch_without_key by blast
  have b: "truthy (REACT_APP_GOOGLE_PLACES_API_KEY env) \<and>
    (\<forall>corsProxy \<in> set corsProxies. delivered env (targetUrlOf env la lo) corsProxy = None) \<longrightarrow>
      snd (fetchHistoricPlacesWithCORS env la lo) = Inr (getFallbackHistoricPlaces la lo)"
    using fetch_exhausted[of env la lo] by simp
  have c: "length (getFallbackHistoricPlaces la lo) = 5"
    by (simp add: getFallbackHistoricPlaces_def)
  from a b c fallback_coordinates[of la lo] fallback_near_anchor[of la lo]
  show ?thesis by blast
qed

theorem fallback_seed_set_witness:
  "fetchHistoricPlacesWithCORS noKeyEnv (binary64 17.385) (binary64 78.4867) =
     ([], Inr (getFallbackHistoricPlaces (binary64 17.385) (binary64 78.4867))) \<and>
   snd (fetchHistoricPlacesWithCORS offlineEnv (binary64 17.385) (binary64 78.4867)) =
     Inr (getFallbackHistoricPlaces (binary64 17.385) (binary64 78.4867)) \<and>
   length (getFallbackHistoricPlaces (binary64 17.385) (binary64 78.4867)) = 5 \<and>
   \<bar>latitude (getFallbackHistoricPlaces (binary64 17.385) (binary64 78.4867) ! 0) -
      binary64 17.385\<bar> \<le> 0.01 + (\<bar>binary64 17.385\<bar> + 0.03) / 2 ^ 53"
proof -
  let ?la = "binary64 17.385"
  let ?lo = "binary64 78.4867"
  have nk: "\<not> truthy (REACT_APP_GOOGLE_PLACES_API_KEY noKeyEnv)"
    by (simp add: noKeyEnv_def truthy_def)
  have k: "truthy (REACT_APP_GOOGLE_PLACES_API_KEY offlineEnv)"
    by (simp add: offlineEnv_def truthy_def)
  have f: "\<forall>corsProxy \<in> set corsProxies.
      delivered offlineEnv (targetUrlOf offlineEnv ?la ?lo) corsProxy = None"
    by (simp add: delivered_def offlineEnv_def)
  have m: "getFallbackHistoricPlaces ?la ?lo ! 0 \<in> set (getFallbackHistoricPlaces ?la ?lo)"
    by (simp add: getFallbackHistoricPlaces_def)
  show ?thesis
    using fallback_seed_set[of noKeyEnv ?la ?lo] fallback_seed_set[of offlineEnv ?la ?lo]
      nk k f m
    by blast
qed

lemma fallback_nonempty: "getFallbackHistoricPlaces la lo \<noteq> []"
  by (simp add: getFallbackHistoricPlaces_def)

text \<open>
  C4: when the first path that succeeds delivers candidates of which none passes the
  relevance filter, the service returns the empty list and not the fallback seed set.
\<close>

theorem empty_success_is_not_fallback:
  assumes "truthy (REACT_APP_GOOGLE_PLACES_API_KEY env)"
    and "i < length corsProxies"
    and "\<forall>j < i. delivered env (targetUrlOf env la lo) (corsProxies ! j) = None"
    and "delivered env (targetUrlOf env la lo) (corsProxies ! i) = Some payload"
    and "filterHistoricPlaces (results payload) = []"
  shows "snd (fetchHistoricPlacesWithCORS env la lo) = Inr [] \<and>
         snd (fetchHistoricPlacesWithCORS env la lo) \<noteq> Inr (getFallbackHistoricPlaces la lo)"
proof -
  have "snd (fetchHistoricPlacesWithCORS env la lo) = Inr (normalised env la lo (results payload))"
    using fetch_first[OF assms(1-4)] by simp
  then have "snd (fetchHistoricPlacesWithCORS env la lo) = Inr []"
    using assms(5) by (simp add: normalised_def)
  then show ?thesis using fallback_nonempty[of la lo] by auto
qed

lemma cafe_irrelevant: "filterHistoricPlaces cafe = []"
  by (simp add: filterHistoricPlaces_def cafe_def candidate_def isHistoricPlace_def
      historicTypes_def historicKeywords_def arrayIncludes_def toLowerCase_def truthy_def)

theorem empty_success_is_not_fallback_witness:
  "snd (fetchHistoricPlacesWithCORS (secondPathEnv cafe) 0 0) = Inr [] \<and>
   snd (fetchHistoricPlacesWithCORS (secondPathEnv cafe) 0 0) \<noteq>
     Inr (getFallbackHistoricPlaces 0 0)"
proof -
  let ?E = "secondPathEnv cafe"
  let ?t = "targetUrlOf ?E 0 0"
  have key: "truthy (REACT_APP_GOOGLE_PLACES_API_KEY ?E)"
    by (simp add: secondPathEnv_def truthy_def)
  have i: "(1::nat) < length corsProxies" by (simp add: corsProxies_def)
  have n: "\<forall>j < (1::nat). delivered ?E ?t (corsProxies ! j) = None"
    by (simp add: corsProxies_def delivered_def secondPathEnv_def buildRequest_def ok_def)
  have d: "delivered ?E ?t (corsProxies ! 1) = Some (okPayload cafe)"
    by (simp add: corsProxies_def delivered_def secondPathEnv_def buildRequest_def ok_def
        okPayload_def)
  have e: "filterHistoricPlaces (results (okPayload cafe)) = []"
    using cafe_irrelevant by (simp add: okPayload_def)
  show ?thesis by (rule empty_success_is_not_fallback[OF key i n d e])
qed

section \<open>The end-to-end scenario\<close>

lemma due_north:
  assumes d0: "0 \<le> d" and d1: "d \<le> 6371"
  shows "calculateDistance la lo (la + d / 6371 * (180 / pi)) lo = round (d * 1000)"
proof -
  define h where "h = d / 6371 / 2"
  have dLat: "(la + d / 6371 * (180 / pi) - la) * pi / 180 / 2 = h"
    by (simp add: h_def)
  have h0: "0 \<le> h" using d0 by (simp add: h_def)
  have "h \<le> 1 / 2" using d1 by (simp add: h_def)
  also have "\<dots> < pi / 2" using pi_ge_two by simp
  finally have h1: "h < pi / 2" .
  have s0: "0 \<le> sin h" using h0 h1 by (intro sin_ge_zero) auto
  have c0: "0 < cos h" using h0 h1 by (intro cos_gt_zero_pi) auto
  have a: "sin h * sin h + cos (la * pi / 180) * cos ((la + d / 6371 * (180 / pi)) * pi / 180) *
        sin ((lo - lo) * pi / 180 / 2) * sin ((lo - lo) * pi / 180 / 2) = (sin h)\<^sup>2"
    by (simp add: power2_eq_square)
  have sa: "sqrt ((sin h)\<^sup>2) = sin h" using s0 by simp
  have "1 - (sin h)\<^sup>2 = (cos h)\<^sup>2" by (simp add: cos_squared_eq)
  then have ca: "sqrt (1 - (sin h)\<^sup>2) = cos h" using c0 by simp
  have "Math_atan2 (sin h) (cos h) = arctan (tan h)"
    using c0 by (simp add: Math_atan2_def tan_def)
  also have "\<dots> = h" using h0 h1 by (intro arctan_tan) auto
  finally have at: "Math_atan2 (sin h) (cos h) = h" .
  have "6371 * (2 * h) * 1000 = d * 1000" by (simp add: h_def)
  then show ?thesis
    unfolding calculateDistance_def Let_def dLat a sa ca at by simp
qed

lemma formatDistance_1110: "formatDistance 1110 = ''1.1km''"
  by (simp add: formatDistance_def toFixed1_def fdiv_def bitLength.simps roundHalfEven_def
      Let_def natToString.simps digitChar_def)

lemma charminar_distance:
  "calculateDistance 17.3850 78.4867 (17.3850 + 1.11 / 6371 * (180 / pi)) 78.4867 = 1110"
proof -
  have "calculateDistance 17.3850 78.4867 (17.3850 + 1.11 / 6371 * (180 / pi)) 78.4867 =
      round (1.11 * 1000 :: real)"
    by (rule due_north) simp_all
  also have "(1.11 * 1000 :: real) = 1110" by simp
  finally show ?thesis by simp
qed

lemma charminar_address:
  "trim (split CHR '','' ''Charminar Rd, Hyderabad'' !
     (length (split CHR '','' ''Charminar Rd, Hyderabad'') - 2)) = ''Charminar Rd''"
  "1 < length (split CHR '','' ''Charminar Rd, Hyderabad'')"
  by (simp_all add: trim_def isWhiteSpace_def)

lemma charminar_description_text:
  "(''Charminar'' @ '' is a renowned heritage site and tourist destination. '') @
     ''Located in '' @ ''Charminar Rd'' @ '', '' @
   ''this site offers visitors a glimpse into the rich history and cultural traditions that have shaped this region over centuries.'' =
   charminarDescription"
  unfolding charminarDescription_def by code_simp

lemma charminar_description:
  assumes nm: "GooglePlaceResponse.name c = ''Charminar''"
    and ty: "''tourist_attraction'' \<in> set (GooglePlaceResponse.types c)"
    and fa: "formatted_address c = Some ''Charminar Rd, Hyderabad''"
    and vi: "GooglePlaceResponse.vicinity c = None"
  shows "buildPlaceDescription c = charminarDescription"
proof -
  have f1: "arrayIncludes (GooglePlaceResponse.types c) ''tourist_attraction'' = True"
    using ty by (simp add: arrayIncludes_def)
  have f2: "truthy (GooglePlaceResponse.vicinity c) = False"
    by (simp add: vi truthy_def)
  have f3: "truthy (formatted_address c) = True"
    by (simp add: fa truthy_def)
  have f4: "the (formatted_address c) = ''Charminar Rd, Hyderabad''"
    by (simp add: fa)
  have "buildPlaceDescription c =
      (''Charminar'' @ '' is a renowned heritage site and tourist destination. '') @
        ''Located in '' @ ''Charminar Rd'' @ '', '' @
      ''this site offers visitors a glimpse into the rich history and cultural traditions that have shaped this region over centuries.''"
    by (simp only: buildPlaceDescription_def Let_def f1 f2 f3 f4 nm charminar_address
        if_True if_False simp_thms append_assoc)
  then show ?thesis by (simp only: charminar_description_text)
qed

lemma charminarDescription_clean:
  "\<not> stringIncludes charminarDescription ''rated'' \<and>
   \<not> stringIncludes charminarDescription ''status'' \<and>
   \<not> stringIncludes (toLowerCase charminarDescription) ''rated'' \<and>
   \<not> stringIncludes (toLowerCase charminarDescription) ''status''"
  unfolding charminarDescription_def by code_simp

lemma tourist_attraction_relevant:
  "''tourist_attraction'' \<in> set (GooglePlaceResponse.types c) \<Longrightarrow> isHistoricPlace c"
  by (auto simp: isHistoricPlace_def Let_def list_ex_iff arrayIncludes_def historicTypes_def)

text \<open>
  C5: for the anchor (17.3850, 78.4867), when the first path that succeeds delivers the
  single candidate named \<open>Charminar\<close>, tagged \<open>tourist_attraction\<close>, with the address
  \<open>Charminar Rd, Hyderabad\<close>, no area name, and a location 1.11 km due north of the
  anchor, the service returns exactly one place, whose distance label is \<open>1.1km\<close> and
  whose description contains neither \<open>rated\<close> nor \<open>status\<close>, in any letter case.
\<close>

theorem charminar_scenario:
  assumes key: "truthy (REACT_APP_GOOGLE_PLACES_API_KEY env)"
    and i: "i < length corsProxies"
    and n: "\<forall>j < i. delivered env (targetUrlOf env 17.3850 78.4867) (corsProxies ! j) = None"
    and d: "delivered env (targetUrlOf env 17.3850 78.4867) (corsProxies ! i) = Some payload"
    and res: "results payload = [c]"
    and nm: "GooglePlaceResponse.name c = ''Charminar''"
    and ty: "''tourist_attraction'' \<in> set (GooglePlaceResponse.types c)"
    and fa: "formatted_address c = Some ''Charminar Rd, Hyderabad''"
    and vi: "GooglePlaceResponse.vicinity c = None"
    and la: "lat (location (geometry c)) = 17.3850 + 1.11 / 6371 * (180 / pi)"
    and ln: "lng (location (geometry c)) = 78.4867"
  shows "snd (fetchHistoricPlacesWithCORS env 17.3850 78.4867) =
           Inr [convertGooglePlaceToLocation env c 17.3850 78.4867] \<and>
         distance (convertGooglePlaceToLocation env c 17.3850 78.4867) = ''1.1km'' \<and>
         \<not> stringIncludes (description (convertGooglePlaceToLocation env c 17.3850 78.4867)) ''rated'' \<and>
         \<not> stringIncludes (description (convertGooglePlaceToLocation env c 17.3850 78.4867)) ''status'' \<and>
         \<not> stringIncludes (toLowerCase (description (convertGooglePlaceToLocation env c 17.3850 78.4867))) ''rated'' \<and>
         \<not> stringIncludes (toLowerCase (description (convertGooglePlaceToLocation env c 17.3850 78.4867))) ''status''"
proof -
  let ?p = "convertGooglePlaceToLocation env c 17.3850 78.4867"
  have "snd (fetchHistoricPlacesWithCORS env 17.3850 78.4867) =
      Inr (normalised env 17.3850 78.4867 (results payload))"
    using fetch_first[OF key i n d] by simp
  moreover have "filterHistoricPlaces [c] = [c]"
    using tourist_attraction_relevant[OF ty] by (simp add: filterHistoricPlaces_def)
  ultimately have r: "snd (fetchHistoricPlacesWithCORS env 17.3850 78.4867) = Inr [?p]"
    by (simp add: normalised_def res)
  have dist: "distance ?p = ''1.1km''"
    using charminar_distance formatDistance_1110
    by (simp add: convertGooglePlaceToLocation_def Let_def la ln)
  have desc: "description ?p = charminarDescription"
    using charminar_description[OF nm ty fa vi]
    by (simp add: convertGooglePlaceToLocation_def Let_def)
  show ?thesis using r dist charminarDescription_clean unfolding desc by blast
qed

theorem charminar_scenario_witness:
  "snd (fetchHistoricPlacesWithCORS (allOriginsEnv [charminar]) 17.3850 78.4867) =
     Inr [convertGooglePlaceToLocation (allOriginsEnv [charminar]) charminar 17.3850 78.4867] \<and>
   distance (convertGooglePlaceToLocation (allOriginsEnv [charminar]) charminar 17.3850 78.4867) =
     ''1.1km'' \<and>
   \<not> stringIncludes (toLowerCase (description
        (convertGooglePlaceToLocation (allOriginsEnv [charminar]) charminar 17.3850 78.4867)))
      ''rated''"
proof -
  let ?E = "allOriginsEnv [charminar]"
  let ?t = "targetUrlOf ?E 17.3850 78.4867"
  have key: "truthy (REACT_APP_GOOGLE_PLACES_API_KEY ?E)"
    by (simp add: allOriginsEnv_def truthy_def)
  have i: "(0::nat) < length corsProxies" by (simp add: corsProxies_def)
  have n: "\<forall>j < (0::nat). delivered ?E ?t (corsProxies ! j) = None" by simp
  have d: "delivered ?E ?t (corsProxies ! 0) = Some (okPayload [charminar])"
    by (simp add: corsProxies_def delivered_def allOriginsEnv_def ok_def okPayload_def)
  have res: "results (okPayload [charminar]) = [charminar]" by (simp add: okPayload_def)
  show ?thesis
    using charminar_scenario[OF key i n d res]
    by (simp add: charminar_def)
qed

section \<open>The image policy\<close>

text \<open>
  C7, as stated, fails in two places. With a photo reference and an access key the
  result is not the provider's photo URL but that URL behind the prefix of a CORS
  proxy. And a candidate tagged \<open>fort\<close> whose name does not contain that word gets the
  generic default image: the fort image is chosen by the name, not by a type tag.
\<close>

theorem imageUrl_policy_counterexample:
  "getImageUrl offlineEnv photoCandidate =
     ''https://cors-anywhere.herokuapp.com/https://maps.googleapis.com/maps/api/place/photo?maxwidth=400&photoreference=REF&key=KEY'' \<and>
   getImageUrl offlineEnv photoCandidate \<noteq>
     ''https://maps.googleapis.com/maps/api/place/photo?maxwidth=400&photoreference=REF&key=KEY'' \<and>
   getImageUrl offlineEnv fortTagged =
     ''https://images.unsplash.com/photo-1578662996442-48f60103fc96?w=400&h=300&fit=crop'' \<and>
   getImageUrl offlineEnv fortTagged \<noteq>
     ''https://images.unsplash.com/photo-1566127952889-bf906f4e4c5d?w=400&h=300&fit=crop''"
  by code_simp

text \<open>
  C7, amended: the image URL is decided in this order. If the candidate carries a photo
  reference and an access key is configured, it is the address of the CORS proxy
  followed by the provider's photo URL
  \<open><photo endpoint>?maxwidth=400&photoreference=<ref>&key=<key>\<close> of the first photo.
  Otherwise it is a static image: the museum image for the tag \<open>museum\<close>; else the
  worship image for the tag \<open>place_of_worship\<close> or \<open>hindu_temple\<close>; else the landmark
  image for the tag \<open>historical_landmark\<close> or a name that contains \<open>fort\<close>; else the
  palace image for a name that contains \<open>palace\<close>; else the Charminar image for a name
  that contains \<open>charminar\<close>; else the generic default image. Names are compared in
  lower case.
\<close>

theorem imageUrl_policy:
  "getImageUrl env place =
     (if hasPhoto place \<and> truthy (REACT_APP_GOOGLE_PLACES_API_KEY env)
      then ''https://cors-anywhere.herokuapp.com/'' @
           ''https://maps.googleapis.com/maps/api/place/photo'' @
           ''?maxwidth=400&photoreference='' @ photo_reference (hd (the (photos place))) @
           ''&key='' @ the (REACT_APP_GOOGLE_PLACES_API_KEY env)
      else if ''museum'' \<in> set (GooglePlaceResponse.types place)
      then ''https://images.unsplash.com/photo-1578495555443-d134c52754e7?w=400&h=300&fit=crop''
      else if ''place_of_worship'' \<in> set (GooglePlaceResponse.types place) \<or>
              ''hindu_temple'' \<in> set (GooglePlaceResponse.types place)
      then ''https://images.unsplash.com/photo-1583224964938-0c17db9e623a?w=400&h=300&fit=crop''
      else if ''historical_landmark'' \<in> set (GooglePlaceResponse.types place) \<or>
              stringIncludes (toLowerCase (GooglePlaceResponse.name place)) ''fort''
      then ''https://images.unsplash.com/photo-1566127952889-bf906f4e4c5d?w=400&h=300&fit=crop''
      else if stringIncludes (toLowerCase (GooglePlaceResponse.name place)) ''palace''
      then ''https://images.unsplash.com/photo-1545042746-d0a8b69e5e22?w=400&h=300&fit=crop''
      else if stringIncludes (toLowerCase (GooglePlaceResponse.name place)) ''charminar''
      then ''https://images.unsplash.com/photo-1564507592333-c60657eea523?w=400&h=300&fit=crop''
      else ''https://images.unsplash.com/photo-1578662996442-48f60103fc96?w=400&h=300&fit=crop'')"
proof (cases "hasPhoto place \<and> truthy (REACT_APP_GOOGLE_PLACES_API_KEY env)")
  case True
  then obtain photo morePhotos where ph: "photos place = Some (photo # morePhotos)"
    by (auto simp: hasPhoto_def split: option.splits list.splits)
  from True have k: "truthy (REACT_APP_GOOGLE_PLACES_API_KEY env)" by simp
  have "getImageUrl env place =
      ''https://cors-anywhere.herokuapp.com/'' @
      (''https://maps.googleapis.com/maps/api/place/photo?maxwidth=400&photoreference='' @
       photo_reference photo @ ''&key='' @ the (REACT_APP_GOOGLE_PLACES_API_KEY env))"
    by (simp only: getImageUrl_def ph k Let_def option.case list.case if_True)
  then show ?thesis using True by (simp add: ph)
next
  case False
  then have "getImageUrl env place = fallbackImageUrl place"
    by (auto simp: getImageUrl_def hasPhoto_def Let_def split: option.splits list.splits)
  then show ?thesis using False
    by (simp add: fallbackImageUrl_def arrayIncludes_def Let_def)
qed

section \<open>Identifiers of the returned places\<close>

lemma id_convert: "id' (convertGooglePlaceToLocation env place la lo) = place_id place"
  by (simp add: convertGooglePlaceToLocation_def Let_def)

lemma ids_normalised:
  "map id' (normalised env la lo candidates) = map place_id (filterHistoricPlaces candidates)"
  by (simp add: normalised_def id_convert)

lemma fallback_ids:
  "map id' (getFallbackHistoricPlaces la lo) =
     [''fallback-historic-1'', ''fallback-heritage-2'', ''fallback-temple-3'',
      ''fallback-fort-4'', ''fallback-palace-5'']"
  by (simp add: getFallbackHistoricPlaces_def)

lemma fallback_ids_good:
  "distinct (map id' (getFallbackHistoricPlaces la lo)) \<and>
   (\<forall>l \<in> set (getFallbackHistoricPlaces la lo). id' l \<noteq> [])"
proof -
  have "distinct (map id' (getFallbackHistoricPlaces la lo))"
    unfolding fallback_ids by simp
  moreover have "\<forall>l \<in> set (getFallbackHistoricPlaces la lo). id' l \<noteq> []"
    by (simp add: getFallbackHistoricPlaces_def)
  ultimately show ?thesis by simp
qed

lemma sameIdTwice_relevant: "filterHistoricPlaces sameIdTwice = sameIdTwice"
  by (simp add: filterHistoricPlaces_def sameIdTwice_def candidate_def isHistoricPlace_def
      historicTypes_def arrayIncludes_def)

text \<open>
  C8, as stated, fails: a payload whose two relevant candidates carry the same
  \<open>place_id\<close> yields two places with the same \<open>id\<close>.
\<close>

theorem place_ids_counterexample:
  "snd (fetchHistoricPlacesWithCORS (secondPathEnv sameIdTwice) 0 0) =
     Inr (normalised (secondPathEnv sameIdTwice) 0 0 sameIdTwice) \<and>
   map id' (normalised (secondPathEnv sameIdTwice) 0 0 sameIdTwice) = [''ChIJ-1'', ''ChIJ-1''] \<and>
   \<not> distinct (map id' (normalised (secondPathEnv sameIdTwice) 0 0 sameIdTwice))"
proof -
  let ?E = "secondPathEnv sameIdTwice"
  let ?t = "targetUrlOf ?E 0 0"
  have key: "truthy (REACT_APP_GOOGLE_PLACES_API_KEY ?E)"
    by (simp add: secondPathEnv_def truthy_def)
  have i: "(1::nat) < length corsProxies" by (simp add: corsProxies_def)
  have n: "\<forall>j < (1::nat). delivered ?E ?t (corsProxies ! j) = None"
    by (simp add: corsProxies_def delivered_def secondPathEnv_def buildRequest_def ok_def)
  have d: "delivered ?E ?t (corsProxies ! 1) = Some (okPayload sameIdTwice)"
    by (simp add: corsProxies_def delivered_def secondPathEnv_def buildRequest_def ok_def
        okPayload_def)
  have r: "snd (fetchHistoricPlacesWithCORS ?E 0 0) = Inr (normalised ?E 0 0 sameIdTwice)"
    using fetch_first[OF key i n d] by (simp add: okPayload_def)
  have ids: "map id' (normalised ?E 0 0 sameIdTwice) = [''ChIJ-1'', ''ChIJ-1'']"
    unfolding ids_normalised sameIdTwice_relevant by (simp add: sameIdTwice_def candidate_def)
  show ?thesis using r ids by simp
qed

text \<open>
  C8, amended: the ids of a returned list are either those of the fallback seed set or
  the \<open>place_id\<close> values of the relevant candidates of a delivering path, unchanged and
  in order. So in every returned list every place has a non-empty id and no two places
  share one, provided that every payload a path delivers gives its candidates
  non-empty, pairwise distinct \<open>place_id\<close> values.
\<close>

theorem place_ids:
  assumes r: "snd (fetchHistoricPlacesWithCORS env la lo) = Inr locations"
    and prov: "\<forall>corsProxy \<in> set corsProxies. \<forall>payload.
        delivered env (targetUrlOf env la lo) corsProxy = Some payload \<longrightarrow>
        distinct (map place_id (results payload)) \<and>
        (\<forall>c \<in> set (results payload). place_id c \<noteq> [])"
  shows "distinct (map id' locations) \<and> (\<forall>l \<in> set locations. id' l \<noteq> []) \<and>
         (map id' locations = map id' (getFallbackHistoricPlaces la lo) \<or>
          (\<exists>corsProxy \<in> set corsProxies. \<exists>payload.
             delivered env (targetUrlOf env la lo) corsProxy = Some payload \<and>
             map id' locations = map place_id (filterHistoricPlaces (results payload))))"
proof -
  let ?t = "targetUrlOf env la lo"
  have fb: ?thesis if "locations = getFallbackHistoricPlaces la lo"
    using fallback_ids_good[of la lo] that by simp
  show ?thesis
  proof (cases "truthy (REACT_APP_GOOGLE_PLACES_API_KEY env)")
    case False
    then have "locations = getFallbackHistoricPlaces la lo"
      using fetch_without_key[of env la lo] r by simp
    then show ?thesis by (rule fb)
  next
    case True
    from first_or_none[of corsProxies "delivered env ?t"] show ?thesis
    proof
      assume "\<forall>x \<in> set corsProxies. delivered env ?t x = None"
      then have "locations = getFallbackHistoricPlaces la lo"
        using fetch_exhausted[OF True, of la lo] r by simp
      then show ?thesis by (rule fb)
    next
      assume "\<exists>i y. i < length corsProxies \<and>
          (\<forall>j < i. delivered env ?t (corsProxies ! j) = None) \<and>
          delivered env ?t (corsProxies ! i) = Some y"
      then obtain i payload where i: "i < length corsProxies"
          and n: "\<forall>j < i. delivered env ?t (corsProxies ! j) = None"
          and d: "delivered env ?t (corsProxies ! i) = Some payload" by blast
      have loc: "locations = normalised env la lo (results payload)"
        using fetch_first[OF True i n d] r by simp
      have mem: "corsProxies ! i \<in> set corsProxies" using i by simp
      with prov d have dis: "distinct (map place_id (results payload))"
        and ne: "\<forall>c \<in> set (results payload). place_id c \<noteq> []" by blast+
      have ids: "map id' locations = map place_id (filterHistoricPlaces (results payload))"
        by (simp add: loc ids_normalised)
      have "distinct (map id' locations)"
        unfolding ids filterHistoricPlaces_def using dis by (rule distinct_map_filter)
      moreover have "\<forall>l \<in> set locations. id' l \<noteq> []"
      proof
        fix l assume "l \<in> set locations"
        then have "id' l \<in> set (map id' locations)" by simp
        then have "id' l \<in> set (map place_id (filterHistoricPlaces (results payload)))"
          by (simp only: ids)
        then obtain c where "c \<in> set (results payload)" "id' l = place_id c"
          by (auto simp: filterHistoricPlaces_def)
        with ne show "id' l \<noteq> []" by simp
      qed
      ultimately show ?thesis using mem d ids by blast
    qed
  qed
qed

lemma twoCandidates_relevant: "filterHistoricPlaces twoCandidates = twoCandidates"
  by (simp add: filterHistoricPlaces_def twoCandidates_def candidate_def isHistoricPlace_def
      historicTypes_def historicKeywords_def arrayIncludes_def toLowerCase_def truthy_def)

theorem place_ids_witness:
  "distinct (map id' (normalised (secondPathEnv twoCandidates) 0 0 twoCandidates)) \<and>
   [] \<notin> set (map id' (normalised (secondPathEnv twoCandidates) 0 0 twoCandidates)) \<and>
   map id' (normalised (secondPathEnv twoCandidates) 0 0 twoCandidates) = [''ChIJ-1'', ''ChIJ-2'']"
proof -
  let ?E = "secondPathEnv twoCandidates"
  let ?t = "targetUrlOf ?E 0 0"
  have key: "truthy (REACT_APP_GOOGLE_PLACES_API_KEY ?E)"
    by (simp add: secondPathEnv_def truthy_def)
  have i: "(1::nat) < length corsProxies" by (simp add: corsProxies_def)
  have n: "\<forall>j < (1::nat). delivered ?E ?t (corsProxies ! j) = None"
    by (simp add: corsProxies_def delivered_def secondPathEnv_def buildRequest_def ok_def)
  have d: "delivered ?E ?t (corsProxies ! 1) = Some (okPayload twoCandidates)"
    by (simp add: corsProxies_def delivered_def secondPathEnv_def buildRequest_def ok_def
        okPayload_def)
  have r: "snd (fetchHistoricPlacesWithCORS ?E 0 0) = Inr (normalised ?E 0 0 twoCandidates)"
    using fetch_first[OF key i n d] by (simp add: okPayload_def)
  have prov: "\<forall>corsProxy \<in> set corsProxies. \<forall>payload.
        delivered ?E ?t corsProxy = Some payload \<longrightarrow>
        distinct (map place_id (results payload)) \<and>
        (\<forall>c \<in> set (results payload). place_id c \<noteq> [])"
    by (simp add: corsProxies_def delivered_def secondPathEnv_def buildRequest_def ok_def
        okPayload_def twoCandidates_def candidate_def)
  have ids: "map id' (normalised ?E 0 0 twoCandidates) = [''ChIJ-1'', ''ChIJ-2'']"
    unfolding ids_normalised twoCandidates_relevant by (simp add: twoCandidates_def candidate_def)
  from place_ids[OF r prov] ids show ?thesis by auto
qed

section \<open>The fallback labels\<close>

lemma mirrored_offsets:
  "calculateDistance 0 0 d d = calculateDistance 0 0 (- d) d"
proof -
  have s: "sin (- x) * sin (- x) = sin x * sin x" for x :: real by simp
  have a: "(- d - 0) * pi / 180 / 2 = - ((d - 0) * pi / 180 / 2)" by simp
  have c: "cos (- d * pi / 180) = cos (d * pi / 180)"
    using cos_minus[of "d * pi / 180"] by simp
  show ?thesis
    unfolding calculateDistance_def Let_def a s c ..
qed

text \<open>
  C10: the fallback seed lists of any two anchors agree on every field of every entry
  except latitude and longitude. In particular the distance labels are the constants
  \<open>1.2km\<close>, \<open>2.1km\<close>, \<open>800m\<close>, \<open>1.8km\<close>, \<open>2.5km\<close> and are not computed from the offsets:
  at the anchor (0, 0) the first two entries are equally far from the anchor by
  \<open>calculateDistance\<close>, and their labels differ.
\<close>

theorem fallback_independent_of_anchor:
  "map (\<lambda>l. l\<lparr> latitude := 0, longitude := 0 \<rparr>) (getFallbackHistoricPlaces la lo) =
     map (\<lambda>l. l\<lparr> latitude := 0, longitude := 0 \<rparr>) (getFallbackHistoricPlaces la2 lo2) \<and>
   map distance (getFallbackHistoricPlaces la lo) =
     [''1.2km'', ''2.1km'', ''800m'', ''1.8km'', ''2.5km''] \<and>
   calculateDistance 0 0 (latitude (getFallbackHistoricPlaces 0 0 ! 0))
       (longitude (getFallbackHistoricPlaces 0 0 ! 0)) =
     calculateDistance 0 0 (latitude (getFallbackHistoricPlaces 0 0 ! 1))
       (longitude (getFallbackHistoricPlaces 0 0 ! 1)) \<and>
   distance (getFallbackHistoricPlaces 0 0 ! 0) \<noteq> distance (getFallbackHistoricPlaces 0 0 ! 1)"
proof -
  have a: "map (\<lambda>l. l\<lparr> latitude := 0, longitude := 0 \<rparr>) (getFallbackHistoricPlaces la lo) =
     map (\<lambda>l. l\<lparr> latitude := 0, longitude := 0 \<rparr>) (getFallbackHistoricPlaces la2 lo2)"
    by (simp add: getFallbackHistoricPlaces_def)
  have b: "map distance (getFallbackHistoricPlaces la lo) =
     [''1.2km'', ''2.1km'', ''800m'', ''1.8km'', ''2.5km'']"
    by (simp add: getFallbackHistoricPlaces_def)
  have c: "calculateDistance 0 0 (latitude (getFallbackHistoricPlaces 0 0 ! 0))
       (longitude (getFallbackHistoricPlaces 0 0 ! 0)) =
     calculateDistance 0 0 (latitude (getFallbackHistoricPlaces 0 0 ! 1))
       (longitude (getFallbackHistoricPlaces 0 0 ! 1))"
    using mirrored_offsets[of "binary64 (binary64 0.01)"]
    by (simp add: getFallbackHistoricPlaces_def fadd_def fsub_def binary64_minus)
  have d: "distance (getFallbackHistoricPlaces 0 0 ! 0) \<noteq> distance (getFallbackHistoricPlaces 0 0 ! 1)"
    by (simp add: getFallbackHistoricPlaces_def)
  from a b c d show ?thesis by blast
qed

end
